theory Spec2Isabelle
  imports Complex_Main
begin

section \<open>Values\<close>

text \<open>
  A float64 cell of a pandas column. Finite values are carried as reals: the rounding
  of binary floating point and signed zeros are not part of this embedding, so every
  statement below about a computed number is a statement about the exact value of the
  expression the program evaluates. \<open>NaN\<close> is the marker pandas uses for a missing
  value (\<^verbatim>\<open>float('NaN')\<close>); \<open>PInf\<close> and \<open>NInf\<close> are what numpy returns for a
  division by zero.
\<close>

datatype pyfloat = NaN | PInf | NInf | Fin real

fun isnan :: "pyfloat \<Rightarrow> bool" where
  "isnan NaN = True"
| "isnan x = False"

text \<open>The sign of a value that is not NaN, and the infinity of a given sign.\<close>

fun sign_of :: "pyfloat \<Rightarrow> real" where
  "sign_of (Fin a) = sgn a"
| "sign_of PInf = 1"
| "sign_of NInf = - 1"
| "sign_of NaN = 0"

definition inf_of_sign :: "real \<Rightarrow> pyfloat" where
  "inf_of_sign s = (if 0 < s then PInf else if s < 0 then NInf else NaN)"

fun fadd :: "pyfloat \<Rightarrow> pyfloat \<Rightarrow> pyfloat" where
  "fadd (Fin a) (Fin b) = Fin (a + b)"
| "fadd NaN y = NaN"
| "fadd x NaN = NaN"
| "fadd PInf NInf = NaN"
| "fadd NInf PInf = NaN"
| "fadd PInf y = PInf"
| "fadd NInf y = NInf"
| "fadd x PInf = PInf"
| "fadd x NInf = NInf"

fun fneg :: "pyfloat \<Rightarrow> pyfloat" where
  "fneg (Fin a) = Fin (- a)"
| "fneg PInf = NInf"
| "fneg NInf = PInf"
| "fneg NaN = NaN"

definition fsub :: "pyfloat \<Rightarrow> pyfloat \<Rightarrow> pyfloat" where
  "fsub x y = fadd x (fneg y)"

fun fmul :: "pyfloat \<Rightarrow> pyfloat \<Rightarrow> pyfloat" where
  "fmul (Fin a) (Fin b) = Fin (a * b)"
| "fmul NaN y = NaN"
| "fmul x NaN = NaN"
| "fmul x y = inf_of_sign (sign_of x * sign_of y)"

text \<open>
  Division of numpy scalars: a zero divisor gives an infinity or NaN (with a warning),
  never an exception.
\<close>

fun fdiv :: "pyfloat \<Rightarrow> pyfloat \<Rightarrow> pyfloat" where
  "fdiv (Fin a) (Fin b) = (if b = 0 then inf_of_sign (sgn a) else Fin (a / b))"
| "fdiv NaN y = NaN"
| "fdiv x NaN = NaN"
| "fdiv (Fin a) y = Fin 0"
| "fdiv x (Fin b) = inf_of_sign (sign_of x * (if b < 0 then - 1 else 1))"
| "fdiv x y = NaN"

text \<open>Comparisons: every comparison with NaN is false.\<close>

fun flt :: "pyfloat \<Rightarrow> pyfloat \<Rightarrow> bool" where
  "flt (Fin a) (Fin b) = (a < b)"
| "flt NaN y = False"
| "flt x NaN = False"
| "flt NInf NInf = False"
| "flt NInf y = True"
| "flt x PInf = (x \<noteq> PInf)"
| "flt x y = False"

definition fgt :: "pyfloat \<Rightarrow> pyfloat \<Rightarrow> bool" where
  "fgt x y = flt y x"

definition fge :: "pyfloat \<Rightarrow> pyfloat \<Rightarrow> bool" where
  "fge x y = (\<not> isnan x \<and> \<not> isnan y \<and> \<not> flt x y)"

text \<open>
  \<^verbatim>\<open>round(x, 2)\<close>: the nearest multiple of 0.01, a tie going to the even neighbour.
\<close>

definition rint :: "real \<Rightarrow> int" where
  "rint x =
     (let f = \<lfloor>x\<rfloor>; d = x - of_int f
      in if d < 1 / 2 then f else if 1 / 2 < d then f + 1
         else if even f then f else f + 1)"

fun round2 :: "pyfloat \<Rightarrow> pyfloat" where
  "round2 (Fin a) = Fin (of_int (rint (a * 100)) / 100)"
| "round2 x = x"

text \<open>The exceptions a call can end with. The source has no \<^verbatim>\<open>raise\<close> statement of its
  own: every failure is raised by an operation it uses.\<close>

datatype error = KeyError | ZeroDivisionError | ValueError

section \<open>Data frames and the store\<close>

text \<open>
  The cell of the column \<^verbatim>\<open>'Buy_Sell_Signal'\<close>: the strings \<^verbatim>\<open>'BUY'\<close> and
  \<^verbatim>\<open>'SELL'\<close>, or the NaN the column is filled with before the scan.
\<close>

datatype signal = NoSignal | BUY | SELL

text \<open>
  A data frame with the default index \<open>0 .. nrows - 1\<close>, restricted to the columns
  the three functions read and write, each with the type of its content:
  \<^item> \<open>price_cols\<close>: the fully populated float64 columns of the loaded series, by name
    (a name that is not of the form \<^verbatim>\<open>'<n>_period_EMA'\<close>);
  \<^item> \<open>EMA_cols\<close>: the column \<^verbatim>\<open>f'{n}_period_EMA'\<close>, by the integer \<open>n\<close>;
  \<^item> \<open>Buy_Sell_Signal\<close>: the signal column, when the frame has one.
\<close>

record dataframe =
  nrows :: nat
  price_cols :: "string \<rightharpoonup> real list"
  EMA_cols :: "int \<rightharpoonup> pyfloat list"
  Buy_Sell_Signal :: "signal list option"

definition wf_df :: "dataframe \<Rightarrow> bool" where
  "wf_df d \<longleftrightarrow>
     (\<forall>c col. price_cols d c = Some col \<longrightarrow> length col = nrows d) \<and>
     (\<forall>n col. EMA_cols d n = Some col \<longrightarrow> length col = nrows d) \<and>
     (\<forall>col. Buy_Sell_Signal d = Some col \<longrightarrow> length col = nrows d)"

text \<open>
  Data frames are objects: a variable holds a reference. The store is the list of the
  objects allocated so far, a reference is a position in it. \<^verbatim>\<open>df.copy(deep=True)\<close>
  allocates a new object with the content of \<open>df\<close>.
\<close>

type_synonym addr = nat
type_synonym heap = "dataframe list"

definition copy_deep :: "heap \<Rightarrow> addr \<Rightarrow> heap \<times> addr" where
  "copy_deep h df = (h @ [h ! df], length h)"

text \<open>
  \<^verbatim>\<open>for i in <indices>: body\<close> over a state \<open>s\<close>; a body that raises ends the loop.
  The result is the state reached and the exception, if any.
\<close>

fun for_loop :: "('i \<Rightarrow> 's \<Rightarrow> error + 's) \<Rightarrow> 'i list \<Rightarrow> 's \<Rightarrow> 's \<times> error option" where
  "for_loop body [] s = (s, None)"
| "for_loop body (i # is) s =
     (case body i s of Inl e \<Rightarrow> (s, Some e) | Inr s' \<Rightarrow> for_loop body is s')"

text \<open>Sequencing of two steps, the first of which may raise.\<close>

definition thn :: "error + 'a \<Rightarrow> ('a \<Rightarrow> error + 'b) \<Rightarrow> error + 'b" where
  "thn m f = (case m of Inl e \<Rightarrow> Inl e | Inr a \<Rightarrow> f a)"

text \<open>\<^verbatim>\<open>df[col]\<close> raises KeyError when the frame has no such column.\<close>

definition getitem :: "('k \<rightharpoonup> 'c) \<Rightarrow> 'k \<Rightarrow> error + 'c" where
  "getitem cols c = (case cols c of None \<Rightarrow> Inl KeyError | Some col \<Rightarrow> Inr col)"

text \<open>
  The name of a float column, as \<^verbatim>\<open>closeCol\<close> gives it: \<open>Named c\<close> is the loaded
  column \<open>c\<close>, \<open>Period_EMA n\<close> is the column \<^verbatim>\<open>f'{n}_period_EMA'\<close>. \<open>column\<close> is
  \<^verbatim>\<open>df[name]\<close> as a column of float64 cells.
\<close>

datatype colname = Named string | Period_EMA int

definition column :: "dataframe \<Rightarrow> colname \<rightharpoonup> pyfloat list" where
  "column d c =
     (case c of Named s \<Rightarrow> map_option (map Fin) (price_cols d s)
              | Period_EMA n \<Rightarrow> EMA_cols d n)"

text \<open>
  Cells are addressed by label, and the labels of a column are \<open>0 .. n - 1\<close>.
  \<^verbatim>\<open>col[i]\<close> raises KeyError for any other label, a negative one included.
  \<^verbatim>\<open>df[name][i] = v\<close> with such a label does not raise and leaves the frame as it is
  (the cell is added to a temporary column, not to the frame).
\<close>

definition getcell :: "'a list \<Rightarrow> int \<Rightarrow> error + 'a" where
  "getcell col i =
     (if 0 \<le> i \<and> i < int (length col) then Inr (col ! nat i) else Inl KeyError)"

definition setcell :: "'a list \<Rightarrow> int \<Rightarrow> 'a \<Rightarrow> 'a list" where
  "setcell col i v = (if 0 \<le> i \<and> i < int (length col) then col[nat i := v] else col)"

text \<open>
  \<^verbatim>\<open>col[a:b]\<close> is by position, with Python's reading of the bounds: a negative bound
  counts from the end, and both are cut to \<open>0 .. n\<close>. \<^verbatim>\<open>np.sum\<close> of a column is the sum
  pandas computes, which leaves NaN cells out. \<^verbatim>\<open>range(a, b)\<close> is \<open>a, \<dots>, b - 1\<close>.
\<close>

definition py_slice :: "'a list \<Rightarrow> int \<Rightarrow> int \<Rightarrow> 'a list" where
  "py_slice xs a b =
     (let n = int (length xs);
          pos = (\<lambda>j. if j < 0 then max 0 (j + n) else min j n)
      in drop (nat (pos a)) (take (nat (pos b)) xs))"

definition np_sum :: "pyfloat list \<Rightarrow> pyfloat" where
  "np_sum xs = foldl fadd (Fin 0) (filter (\<lambda>x. \<not> isnan x) xs)"

definition py_range :: "int \<Rightarrow> int \<Rightarrow> int list" where
  "py_range a b = [a .. b - 1]"

section \<open>EMA\<close>

text \<open>
  \<^verbatim>\<open>dfCopy[f'{numPeriods}_period_EMA'][i] = v\<close>, and one iteration of the loop (lines
  22 to 27) on the object \<open>dfCopy\<close>: the right-hand side is evaluated from left to right,
  then the cell is assigned. The sum of line 24 is a numpy scalar, so its division by
  \<^verbatim>\<open>numPeriods\<close> does not raise.
\<close>

definition set_EMA_cell :: "dataframe \<Rightarrow> int \<Rightarrow> int \<Rightarrow> pyfloat \<Rightarrow> error + dataframe" where
  "set_EMA_cell dfCopy numPeriods i v =
     thn (getitem (EMA_cols dfCopy) numPeriods) (\<lambda>ema.
       Inr (dfCopy\<lparr>EMA_cols := (EMA_cols dfCopy)(numPeriods \<mapsto> setcell ema i v)\<rparr>))"

definition EMA_body :: "colname \<Rightarrow> int \<Rightarrow> real \<Rightarrow> int \<Rightarrow> dataframe \<Rightarrow> error + dataframe" where
  "EMA_body closeCol numPeriods k i dfCopy =
     (if i = numPeriods - 1 then
        thn (getitem (column dfCopy) closeCol) (\<lambda>close.
          set_EMA_cell dfCopy numPeriods i
            (fdiv (np_sum (py_slice close (i - (numPeriods - 1)) (i + 1)))
                  (Fin (of_int numPeriods))))
      else
        thn (getitem (column dfCopy) closeCol) (\<lambda>close.
        thn (getcell close i) (\<lambda>c.
        thn (getitem (EMA_cols dfCopy) numPeriods) (\<lambda>ema.
        thn (getcell ema (i - 1)) (\<lambda>e.
          set_EMA_cell dfCopy numPeriods i
            (fadd (fmul c (Fin k)) (fmul e (Fin (1 - k)))))))))"

text \<open>
  The call: the copy is allocated, its EMA column is created full of NaN, \<open>k\<close> is
  computed (a division of Python ints, which raises ZeroDivisionError when
  \<^verbatim>\<open>numPeriods\<close> is \<open>- 1\<close>), the loop runs on the copy, and the reference to the copy is
  returned. The copy is the only object written to.
\<close>

definition EMA :: "heap \<Rightarrow> addr \<Rightarrow> colname \<Rightarrow> int \<Rightarrow> heap \<times> (error + addr)" where
  "EMA h df closeCol numPeriods =
     (let (h1, dfCopy) = copy_deep h df;
          d0 = (h1 ! dfCopy)\<lparr>EMA_cols :=
                 (EMA_cols (h1 ! dfCopy))(numPeriods \<mapsto> replicate (nrows (h1 ! dfCopy)) NaN)\<rparr>
      in if numPeriods + 1 = 0 then (h1[dfCopy := d0], Inl ZeroDivisionError)
         else
           (let k = 2 / of_int (numPeriods + 1);
                (d, r) = for_loop (EMA_body closeCol numPeriods k)
                           (py_range (numPeriods - 1) (int (nrows d0))) d0
            in (h1[dfCopy := d], case r of None \<Rightarrow> Inr dfCopy | Some e \<Rightarrow> Inl e)))"

text \<open>
  For a period \<open>p \<ge> 1\<close> and a loaded close column: the value the loop assigns at
  position \<open>i\<close> (the mean of the first window at \<open>i = p - 1\<close>, the recurrence after it),
  and the column the loop has built after the positions \<open>is\<close>, starting from \<open>ema\<close>.
\<close>

definition EMA_value :: "real list \<Rightarrow> pyfloat list \<Rightarrow> nat \<Rightarrow> real \<Rightarrow> nat \<Rightarrow> pyfloat" where
  "EMA_value close ema p k i =
     (if i = p - 1
      then Fin (sum_list (take p close) / real p)
      else fadd (fmul (Fin (close ! i)) (Fin k)) (fmul (ema ! (i - 1)) (Fin (1 - k))))"

definition ema_fold :: "real list \<Rightarrow> nat \<Rightarrow> real \<Rightarrow> nat list \<Rightarrow> pyfloat list \<Rightarrow> pyfloat list" where
  "ema_fold close p k is ema = fold (\<lambda>i ema. ema[i := EMA_value close ema p k i]) is ema"

section \<open>EMA\_trading\_strategy\<close>

text \<open>
  The three EMA columns are named by their periods. \<^verbatim>\<open>dfCopy['Buy_Sell_Signal'][i] = v\<close>
  assigns one cell of the signal column of the copy.
\<close>

definition set_signal :: "dataframe \<Rightarrow> nat \<Rightarrow> signal \<Rightarrow> error + dataframe" where
  "set_signal dfCopy i v =
     (case Buy_Sell_Signal dfCopy of
        None \<Rightarrow> Inl KeyError
      | Some col \<Rightarrow> Inr (dfCopy\<lparr>Buy_Sell_Signal := Some (col[i := v])\<rparr>))"

text \<open>
  One iteration (lines 54 to 61) on the copy and the flag \<open>bought\<close>. The three NaN tests
  are evaluated from left to right and stop at the first that holds, so a later column
  is only looked up when the earlier cells are numbers.
\<close>

definition strategy_body ::
  "int \<Rightarrow> int \<Rightarrow> int \<Rightarrow> nat \<Rightarrow> dataframe \<times> bool \<Rightarrow> error + dataframe \<times> bool" where
  "strategy_body emaCol1 emaCol2 emaCol3 i s =
     (case s of (dfCopy, bought) \<Rightarrow>
       thn (getitem (EMA_cols dfCopy) emaCol1) (\<lambda>c1.
       if isnan (c1 ! i) then Inr (dfCopy, bought) else
       thn (getitem (EMA_cols dfCopy) emaCol2) (\<lambda>c2.
       if isnan (c2 ! i) then Inr (dfCopy, bought) else
       thn (getitem (EMA_cols dfCopy) emaCol3) (\<lambda>c3.
       if isnan (c3 ! i) then Inr (dfCopy, bought)
       else if flt (c2 ! i) (c1 ! i) \<and> flt (c3 ! i) (c2 ! i) \<and> bought = False then
         thn (set_signal dfCopy i BUY) (\<lambda>d. Inr (d, True))
       else if fgt (c2 ! i) (c1 ! i) \<and> fgt (c3 ! i) (c2 ! i) \<and> bought = True then
         thn (set_signal dfCopy i SELL) (\<lambda>d. Inr (d, False))
       else Inr (dfCopy, bought)))))"

definition EMA_trading_strategy ::
  "heap \<Rightarrow> addr \<Rightarrow> int \<Rightarrow> int \<Rightarrow> int \<Rightarrow> heap \<times> (error + addr)" where
  "EMA_trading_strategy h df emaCol1 emaCol2 emaCol3 =
     (let (h1, dfCopy) = copy_deep h df;
          d0 = (h1 ! dfCopy)\<lparr>Buy_Sell_Signal :=
                 Some (replicate (nrows (h1 ! dfCopy)) NoSignal)\<rparr>;
          ((d, bought), r) =
            for_loop (strategy_body emaCol1 emaCol2 emaCol3) [0 ..< nrows d0] (d0, False)
      in (h1[dfCopy := d], case r of None \<Rightarrow> Inr dfCopy | Some e \<Rightarrow> Inl e))"

text \<open>
  The signal generator as the specification words it: a scan of the three aligned series
  with a holding flag, one signal for each position.
\<close>

fun generateSignals_from :: "bool \<Rightarrow> (pyfloat \<times> pyfloat \<times> pyfloat) list \<Rightarrow> signal list" where
  "generateSignals_from holding [] = []"
| "generateSignals_from holding ((shortEMA, midEMA, longEMA) # rest) =
     (if isnan shortEMA \<or> isnan midEMA \<or> isnan longEMA
      then NoSignal # generateSignals_from holding rest
      else if flt midEMA shortEMA \<and> flt longEMA midEMA \<and> \<not> holding
      then BUY # generateSignals_from True rest
      else if flt shortEMA midEMA \<and> flt midEMA longEMA \<and> holding
      then SELL # generateSignals_from False rest
      else NoSignal # generateSignals_from holding rest)"

definition generateSignals :: "pyfloat list \<Rightarrow> pyfloat list \<Rightarrow> pyfloat list \<Rightarrow> signal list" where
  "generateSignals shortEMA midEMA longEMA =
     generateSignals_from False (zip shortEMA (zip midEMA longEMA))"

text \<open>
  The check of a signal sequence against a holding flag: a BUY needs the flag false and
  sets it, a SELL needs it true and clears it. \<open>flag_after\<close> is the flag at the end.
\<close>

fun alternates :: "bool \<Rightarrow> signal list \<Rightarrow> bool" where
  "alternates holding [] = True"
| "alternates holding (BUY # ss) = (\<not> holding \<and> alternates True ss)"
| "alternates holding (SELL # ss) = (holding \<and> alternates False ss)"
| "alternates holding (NoSignal # ss) = alternates holding ss"

fun flag_after :: "bool \<Rightarrow> signal list \<Rightarrow> bool" where
  "flag_after holding [] = holding"
| "flag_after holding (BUY # ss) = flag_after True ss"
| "flag_after holding (SELL # ss) = flag_after False ss"
| "flag_after holding (NoSignal # ss) = flag_after holding ss"

section \<open>assessTradingStrategy\<close>

text \<open>
  \<^verbatim>\<open>investment\<close> starts as the Python number \<^verbatim>\<open>initialAmount\<close> and becomes a numpy
  float64 with the first sale (the cells of a float64 column are numpy scalars). The two
  divide differently: a Python number divided by zero raises ZeroDivisionError, a numpy
  scalar divided by zero gives an infinity or NaN.
\<close>

datatype num = Py real | Np pyfloat

fun val :: "num \<Rightarrow> pyfloat" where
  "val (Py a) = Fin a"
| "val (Np x) = x"

fun truediv :: "num \<Rightarrow> real \<Rightarrow> error + pyfloat" where
  "truediv (Py a) b = (if b = 0 then Inl ZeroDivisionError else Inr (Fin (a / b)))"
| "truediv (Np x) b = Inr (fdiv x (Fin b))"

definition int_truediv :: "nat \<Rightarrow> nat \<Rightarrow> error + real" where
  "int_truediv a b = (if b = 0 then Inl ZeroDivisionError else Inr (real a / real b))"

text \<open>The local variables of the function.\<close>

record locals =
  investment :: num
  buyPrice :: pyfloat
  sellPrice :: pyfloat
  bought :: bool
  numSuccess :: nat
  numFailure :: nat
  endingInvestmentAmount :: pyfloat

definition initial_locals :: "real \<Rightarrow> locals" where
  "initial_locals initialAmount =
     \<lparr>investment = Py initialAmount, buyPrice = Fin 0, sellPrice = Fin 0, bought = False,
      numSuccess = 0, numFailure = 0, endingInvestmentAmount = Fin 0\<rparr>"

text \<open>
  The sale of lines 100 to 108, and one iteration of the loop (lines 95 to 110). The
  signal column stands for \<^verbatim>\<open>df[buySellSignalCol]\<close>; the frame is only read.
\<close>

definition sell :: "real \<Rightarrow> locals \<Rightarrow> locals" where
  "sell close_i st =
     (let investmentInitial = investment st;
          st1 = st\<lparr>sellPrice := Fin close_i,
                   investment := Np (fmul (val investmentInitial)
                     (fsub (fdiv (Fin close_i) (buyPrice st)) (Fin 0.0075)))\<rparr>;
          st2 = (if fge (val (investment st1)) (val investmentInitial)
                 then st1\<lparr>numSuccess := numSuccess st1 + 1\<rparr>
                 else st1\<lparr>numFailure := numFailure st1 + 1\<rparr>)
      in st2\<lparr>bought := False\<rparr>)"

definition assess_body :: "dataframe \<Rightarrow> string \<Rightarrow> nat \<Rightarrow> locals \<Rightarrow> error + locals" where
  "assess_body df closeCol i st =
     thn (case Buy_Sell_Signal df of None \<Rightarrow> Inl KeyError | Some sigs \<Rightarrow> Inr sigs) (\<lambda>sigs.
     thn (if sigs ! i = BUY \<and> bought st = False then
            thn (getitem (price_cols df) closeCol) (\<lambda>close.
              Inr (st\<lparr>buyPrice := fmul (Fin (close ! i)) (Fin (1 + 0.0075)), bought := True\<rparr>))
          else if sigs ! i = SELL \<and> bought st = True then
            thn (getitem (price_cols df) closeCol) (\<lambda>close. Inr (sell (close ! i) st))
          else Inr st) (\<lambda>st'.
     Inr (if i = nrows df - 1
          then st'\<lparr>endingInvestmentAmount := round2 (val (investment st'))\<rparr>
          else st')))"

text \<open>The state after the positions below \<open>m\<close>, and the exception if one was raised.\<close>

definition scan :: "dataframe \<Rightarrow> string \<Rightarrow> real \<Rightarrow> nat \<Rightarrow> locals \<times> error option" where
  "scan df closeCol initialAmount m =
     for_loop (assess_body df closeCol) [0 ..< m] (initial_locals initialAmount)"

text \<open>
  The call. The result is the tuple of the source; of \<^verbatim>\<open>percentTotalProfit\<close> and
  \<^verbatim>\<open>successRate\<close> it holds the rounded number, to which the source appends
  \<^verbatim>\<open>'%'\<close>.
\<close>

definition assessTradingStrategy ::
  "dataframe \<Rightarrow> string \<Rightarrow> real \<Rightarrow> error + (pyfloat \<times> pyfloat \<times> pyfloat \<times> nat \<times> nat \<times> pyfloat)" where
  "assessTradingStrategy df closeCol initialAmount =
     (case scan df closeCol initialAmount (nrows df) of
        (st, Some e) \<Rightarrow> Inl e
      | (st, None) \<Rightarrow>
          (let totalProfit = round2 (fsub (val (investment st)) (Fin initialAmount)) in
           thn (truediv (investment st) initialAmount) (\<lambda>q.
           let percentTotalProfit = round2 (fsub (fmul q (Fin 100)) (Fin 100)) in
           thn (int_truediv (numSuccess st) (numSuccess st + numFailure st)) (\<lambda>r.
           let successRate = round2 (Fin (r * 100)) in
           Inr (totalProfit, percentTotalProfit, endingInvestmentAmount st,
                numSuccess st, numFailure st, successRate)))))"

text \<open>
  The completed trades of a signal sequence as the specification words them: a BUY seen
  while not holding opens a trade, the next SELL seen while holding closes it. The
  result pairs the close prices at the two positions. \<open>open_buy\<close> is the close price
  of the open trade, if any.
\<close>

fun completed_trades :: "real option \<Rightarrow> (signal \<times> real) list \<Rightarrow> (real \<times> real) list" where
  "completed_trades open_buy [] = []"
| "completed_trades None ((BUY, c) # rest) = completed_trades (Some c) rest"
| "completed_trades (Some b) ((SELL, c) # rest) = (b, c) # completed_trades None rest"
| "completed_trades open_buy (x # rest) = completed_trades open_buy rest"

fun open_after :: "real option \<Rightarrow> (signal \<times> real) list \<Rightarrow> real option" where
  "open_after open_buy [] = open_buy"
| "open_after None ((BUY, c) # rest) = open_after (Some c) rest"
| "open_after (Some b) ((SELL, c) # rest) = open_after None rest"
| "open_after open_buy (x # rest) = open_after open_buy rest"

text \<open>The investment after one completed trade, by the formula of the specification.\<close>

definition trade_result :: "pyfloat \<Rightarrow> real \<times> real \<Rightarrow> pyfloat" where
  "trade_result amount t =
     fmul amount (fsub (fdiv (Fin (snd t)) (Fin (fst t * (1 + 0.0075)))) (Fin 0.0075))"

text \<open>
  The invariants of the loop of \<open>EMA_trading_strategy\<close> after the positions below
  \<open>m\<close>: the part of the signal column written so far passes the check and ends with the
  flag of the loop; and, when the three EMA columns exist, it is what the generator of
  the specification gives on the first \<open>m\<close> rows.
\<close>

definition sig_inv :: "nat \<Rightarrow> nat \<Rightarrow> dataframe \<times> bool \<Rightarrow> bool" where
  "sig_inv n m s \<longleftrightarrow>
     (\<exists>col. Buy_Sell_Signal (fst s) = Some col \<and> length col = n \<and> m \<le> n \<and>
        alternates False (take m col) \<and> flag_after False (take m col) = snd s \<and>
        (\<forall>j. m \<le> j \<longrightarrow> j < n \<longrightarrow> col ! j = NoSignal))"

definition ref_inv ::
  "dataframe \<Rightarrow> (pyfloat \<times> pyfloat \<times> pyfloat) list \<Rightarrow> nat \<Rightarrow> dataframe \<times> bool \<Rightarrow> bool" where
  "ref_inv d0 rows m s \<longleftrightarrow>
     m \<le> length rows \<and>
     fst s = d0\<lparr>Buy_Sell_Signal :=
        Some (generateSignals_from False (take m rows) @ replicate (length rows - m) NoSignal)\<rparr> \<and>
     snd s = flag_after False (generateSignals_from False (take m rows))"

text \<open>
  The effect of lines 95 to 108 on the local variables, for the signal and the close
  price of one position; and the invariant of the scan after the rows \<open>rows\<close>: the
  investment and the counters are those of the completed trades, and a position is held
  exactly when a trade is open, bought at its close price plus the fee.
\<close>

definition trade_step :: "signal \<Rightarrow> real \<Rightarrow> locals \<Rightarrow> locals" where
  "trade_step sg c st =
     (if sg = BUY \<and> \<not> bought st
      then st\<lparr>buyPrice := Fin (c * (1 + 0.0075)), bought := True\<rparr>
      else if sg = SELL \<and> bought st then sell c st else st)"

definition bt_inv :: "real \<Rightarrow> (signal \<times> real) list \<Rightarrow> locals \<Rightarrow> bool" where
  "bt_inv initialAmount rows st \<longleftrightarrow>
     investment st =
       (if completed_trades None rows = [] then Py initialAmount
        else Np (foldl trade_result (Fin initialAmount) (completed_trades None rows))) \<and>
     numSuccess st + numFailure st = length (completed_trades None rows) \<and>
     (case open_after None rows of
        None \<Rightarrow> \<not> bought st
      | Some b \<Rightarrow> bought st \<and> buyPrice st = Fin (b * (1 + 0.0075)))"

section \<open>Example frames\<close>

definition example_df :: dataframe where
  "example_df = \<lparr>nrows = 5, price_cols = [''Close'' \<mapsto> [10, 20, 30, 40, 50]],
     EMA_cols = Map.empty, Buy_Sell_Signal = None\<rparr>"

definition example_signal_df :: dataframe where
  "example_signal_df = \<lparr>nrows = 6, price_cols = [''Close'' \<mapsto> [100, 101, 102, 103, 104, 105]],
     EMA_cols = Map.empty,
     Buy_Sell_Signal = Some [NoSignal, NoSignal, BUY, NoSignal, SELL, NoSignal]\<rparr>"

definition example_open_df :: dataframe where
  "example_open_df = \<lparr>nrows = 3, price_cols = [''Close'' \<mapsto> [100, 101, 102]],
     EMA_cols = Map.empty, Buy_Sell_Signal = Some [NoSignal, BUY, NoSignal]\<rparr>"

definition example_ema_df :: dataframe where
  "example_ema_df = \<lparr>nrows = 4, price_cols = [''Close'' \<mapsto> [100, 102, 104, 105]],
     EMA_cols = [1 \<mapsto> [NaN, Fin 3, Fin 1, Fin 1], 2 \<mapsto> [Fin 2, Fin 2, Fin 2, Fin 2],
                 3 \<mapsto> [Fin 1, Fin 1, Fin 3, Fin 3]],
     Buy_Sell_Signal = None\<rparr>"

definition example_trailing_df :: dataframe where
  "example_trailing_df = \<lparr>nrows = 3, price_cols = [''Close'' \<mapsto> [100, 101, 102]],
     EMA_cols = Map.empty, Buy_Sell_Signal = Some [NoSignal, NoSignal, BUY]\<rparr>"

section \<open>Iteration\<close>

lemma for_loop_append:
  "for_loop body (xs @ ys) s =
     (case for_loop body xs s of (s', None) \<Rightarrow> for_loop body ys s' | (s', Some e) \<Rightarrow> (s', Some e))"
  by (induction xs arbitrary: s) (auto split: sum.splits)

lemma for_loop_upt_total:
  assumes step: "\<And>i s. i < n \<Longrightarrow> I i s \<Longrightarrow> \<exists>s'. body i s = Inr s' \<and> I (Suc i) s'"
  shows "m \<le> n \<Longrightarrow> I m s \<Longrightarrow> \<exists>s'. for_loop body [m ..< n] s = (s', None) \<and> I n s'"
proof (induction "n - m" arbitrary: m s)
  case 0
  then show ?case by simp
next
  case (Suc d)
  then have lt: "m < n" by simp
  obtain s1 where s1: "body m s = Inr s1" "I (Suc m) s1"
    using step [OF lt Suc.prems(2)] by auto
  have "\<exists>s'. for_loop body [Suc m ..< n] s1 = (s', None) \<and> I n s'"
    using Suc.hyps(1) [of "Suc m" s1] Suc.hyps(2) lt s1(2) by simp
  then show ?case using lt s1(1) by (simp add: upt_conv_Cons)
qed

lemma for_loop_upt_partial:
  assumes step: "\<And>i s s'. i < n \<Longrightarrow> I i s \<Longrightarrow> body i s = Inr s' \<Longrightarrow> I (Suc i) s'"
  shows "m \<le> n \<Longrightarrow> I m s \<Longrightarrow> for_loop body [m ..< n] s = (s', None) \<Longrightarrow> I n s'"
proof (induction "n - m" arbitrary: m s)
  case 0
  then show ?case by simp
next
  case (Suc d)
  then have lt: "m < n" by simp
  show ?case
  proof (cases "body m s")
    case (Inl e)
    then show ?thesis using Suc.prems(3) lt by (simp add: upt_conv_Cons)
  next
    case (Inr s1)
    then have "for_loop body [Suc m ..< n] s1 = (s', None)"
      using Suc.prems(3) lt by (simp add: upt_conv_Cons)
    moreover have "I (Suc m) s1" using step [OF lt Suc.prems(2) Inr] .
    ultimately show ?thesis
      using Suc.hyps(1) [of "Suc m" s1] Suc.hyps(2) lt by simp
  qed
qed

lemma for_loop_map:
  "for_loop body (map f is) s = for_loop (\<lambda>i. body (f i)) is s"
  by (induction "is" arbitrary: s) (simp_all split: sum.splits)

section \<open>The loop of EMA\<close>

lemma py_range_empty: "b \<le> a \<Longrightarrow> py_range a b = []"
  by (simp add: py_range_def)

lemma py_range_Cons: "a < b \<Longrightarrow> py_range a b = a # py_range (a + 1) b"
  by (simp add: py_range_def upto_rec1)

lemma py_range_nat: "py_range (int a) (int n) = map int [a ..< n]"
proof (induction n)
  case 0
  then show ?case by (simp add: py_range_def)
next
  case (Suc n)
  show ?case
  proof (cases "a \<le> n")
    case True
    then have "[int a .. int n] = [int a .. int n - 1] @ [int n]"
      by (intro upto_rec2) simp
    then show ?thesis using Suc True by (simp add: py_range_def)
  next
    case False
    then show ?thesis by (simp add: py_range_def)
  qed
qed

lemma foldl_fadd_Fin: "foldl fadd (Fin a) (map Fin xs) = Fin (a + sum_list xs)"
  by (induction xs arbitrary: a) (simp_all add: add.assoc)

lemma np_sum_map_Fin: "np_sum (map Fin xs) = Fin (sum_list xs)"
proof -
  have "filter (\<lambda>x. \<not> isnan x) (map Fin xs) = map Fin xs"
    by (induction xs) simp_all
  then show ?thesis by (simp add: np_sum_def foldl_fadd_Fin)
qed

lemma py_slice_prefix: "py_slice xs 0 (int p) = take p xs"
  by (simp add: py_slice_def Let_def min_def)

lemma ema_fold_length: "length (ema_fold close p k is ema) = length ema"
  unfolding ema_fold_def by (induction "is" arbitrary: ema) simp_all

lemma ema_fold_snoc:
  "ema_fold close p k (is @ [i]) ema =
     (ema_fold close p k is ema)[i := EMA_value close (ema_fold close p k is ema) p k i]"
  by (simp add: ema_fold_def)

lemma ema_fold_untouched:
  "i \<notin> set is \<Longrightarrow> ema_fold close p k is ema ! i = ema ! i"
  unfolding ema_fold_def by (induction "is" arbitrary: ema) simp_all

lemma ema_run_Suc:
  "a \<le> m \<Longrightarrow> ema_fold close p k [a ..< Suc m] ema =
     (ema_fold close p k [a ..< m] ema)[m := EMA_value close (ema_fold close p k [a ..< m] ema) p k m]"
  by (simp add: ema_fold_snoc)

lemma ema_run_stable:
  "i < m \<Longrightarrow> m \<le> m' \<Longrightarrow>
   ema_fold close p k [a ..< m'] ema ! i = ema_fold close p k [a ..< m] ema ! i"
proof (induction m')
  case 0
  then show ?case by simp
next
  case (Suc m')
  show ?case
  proof (cases "m = Suc m'")
    case True
    then show ?thesis by simp
  next
    case False
    with Suc.prems have le: "m \<le> m'" by simp
    show ?thesis
    proof (cases "a \<le> m'")
      case True
      have "ema_fold close p k [a ..< Suc m'] ema ! i = ema_fold close p k [a ..< m'] ema ! i"
        using Suc.prems(1) le by (simp only: ema_run_Suc [OF True]) simp
      then show ?thesis using Suc.IH [OF Suc.prems(1) le] by simp
    next
      case False
      then show ?thesis using le by simp
    qed
  qed
qed

lemma ema_run_at:
  assumes "a \<le> i" "i < m" "i < length ema"
  shows "ema_fold close p k [a ..< m] ema ! i =
         EMA_value close (ema_fold close p k [a ..< i] ema) p k i"
proof -
  have "ema_fold close p k [a ..< m] ema ! i = ema_fold close p k [a ..< Suc i] ema ! i"
    using assms by (intro ema_run_stable) simp_all
  also have "\<dots> = EMA_value close (ema_fold close p k [a ..< i] ema) p k i"
    using assms by (simp only: ema_run_Suc [OF assms(1)]) (simp add: ema_fold_length)
  finally show ?thesis .
qed

lemma ema_run_outside:
  "i < a \<or> m \<le> i \<Longrightarrow> ema_fold close p k [a ..< m] ema ! i = ema ! i"
  by (rule ema_fold_untouched) auto

lemma ema_run_seed:
  assumes "1 \<le> p" "p \<le> m" "p \<le> length ema"
  shows "ema_fold close p k [p - 1 ..< m] ema ! (p - 1) = Fin (sum_list (take p close) / real p)"
proof -
  have "ema_fold close p k [p - 1 ..< m] ema ! (p - 1) =
        EMA_value close (ema_fold close p k [p - 1 ..< p - 1] ema) p k (p - 1)"
    using assms by (intro ema_run_at) simp_all
  then show ?thesis using assms by (simp add: EMA_value_def)
qed

lemma ema_run_rec:
  assumes "p - 1 < i" "i < m" "i < length ema"
  shows "ema_fold close p k [p - 1 ..< m] ema ! i =
         fadd (fmul (Fin (close ! i)) (Fin k))
              (fmul (ema_fold close p k [p - 1 ..< m] ema ! (i - 1)) (Fin (1 - k)))"
proof -
  have "ema_fold close p k [p - 1 ..< m] ema ! i =
        EMA_value close (ema_fold close p k [p - 1 ..< i] ema) p k i"
    using assms by (intro ema_run_at) simp_all
  moreover have "ema_fold close p k [p - 1 ..< m] ema ! (i - 1) =
                 ema_fold close p k [p - 1 ..< i] ema ! (i - 1)"
    using assms by (intro ema_run_stable) simp_all
  ultimately show ?thesis using assms by (simp add: EMA_value_def)
qed

lemma ema_run_Fin:
  assumes "1 \<le> p" "m \<le> length ema"
  shows "p - 1 \<le> i \<Longrightarrow> i < m \<Longrightarrow> \<exists>x. ema_fold close p k [p - 1 ..< m] ema ! i = Fin x"
proof (induction i)
  case 0
  then have "p = 1" using assms by simp
  then show ?case using ema_run_seed [of p m ema close k] 0 assms by simp
next
  case (Suc i)
  show ?case
  proof (cases "p - 1 = Suc i")
    case True
    then show ?thesis using ema_run_seed [of p m ema close k] Suc.prems assms by simp
  next
    case False
    then have lt: "p - 1 < Suc i" and le: "p - 1 \<le> i" using Suc.prems by simp_all
    obtain x where x: "ema_fold close p k [p - 1 ..< m] ema ! i = Fin x"
      using Suc.IH [OF le] Suc.prems by auto
    have "ema_fold close p k [p - 1 ..< m] ema ! Suc i =
         fadd (fmul (Fin (close ! Suc i)) (Fin k))
              (fmul (ema_fold close p k [p - 1 ..< m] ema ! (Suc i - 1)) (Fin (1 - k)))"
      using lt Suc.prems assms by (intro ema_run_rec) simp_all
    then show ?thesis using x by simp
  qed
qed



lemma EMA_body_value:
  assumes "price_cols d c = Some close" "EMA_cols d (int p) = Some ema"
    and "length close = n" "length ema = n" "1 \<le> p" "p - 1 \<le> i" "i < n"
  shows "EMA_body (Named c) (int p) k (int i) d =
     Inr (d\<lparr>EMA_cols := (EMA_cols d)(int p \<mapsto> ema[i := EMA_value close ema p k i])\<rparr>)"
proof (cases "i = p - 1")
  case True
  then have eq: "int i = int p - 1" using assms(5) by simp
  have "fdiv (np_sum (py_slice (map Fin close) 0 (int p))) (Fin (real p)) =
        Fin (sum_list (take p close) / real p)"
    using assms(5) by (simp add: py_slice_prefix take_map np_sum_map_Fin)
  moreover have "nat (int p - 1) = p - Suc 0" by simp
  ultimately show ?thesis
    using assms True eq
    by (simp add: EMA_body_def thn_def getitem_def column_def set_EMA_cell_def setcell_def
        EMA_value_def)
next
  case False
  then have ne: "int i \<noteq> int p - 1" and pos: "1 \<le> i" using assms(5,6) by auto
  have "nat (int i - 1) = i - 1" by simp
  then show ?thesis
    using assms False ne pos
    by (simp add: EMA_body_def thn_def getitem_def column_def set_EMA_cell_def setcell_def
        getcell_def EMA_value_def)
qed

lemma EMA_loop_ok:
  assumes "price_cols d c = Some close" "EMA_cols d (int p) = Some ema"
    and "length close = n" "length ema = n" "1 \<le> p"
    and "\<forall>i \<in> set is. p - 1 \<le> i \<and> i < n"
  shows "for_loop (EMA_body (Named c) (int p) k) (map int is) d =
     (d\<lparr>EMA_cols := (EMA_cols d)(int p \<mapsto> ema_fold close p k is ema)\<rparr>, None)"
  using assms
proof (induction "is" arbitrary: d ema)
  case Nil
  then show ?case by (simp add: ema_fold_def fun_upd_idem)
next
  case (Cons i "is")
  let ?e = "ema[i := EMA_value close ema p k i]"
  let ?d = "d\<lparr>EMA_cols := (EMA_cols d)(int p \<mapsto> ?e)\<rparr>"
  have b: "EMA_body (Named c) (int p) k (int i) d = Inr ?d"
    by (rule EMA_body_value [where n = n]) (use Cons.prems in simp_all)
  have "for_loop (EMA_body (Named c) (int p) k) (map int (i # is)) d =
        for_loop (EMA_body (Named c) (int p) k) (map int is) ?d"
    by (simp add: b)
  also have "\<dots> = (?d\<lparr>EMA_cols := (EMA_cols ?d)(int p \<mapsto> ema_fold close p k is ?e)\<rparr>, None)"
    by (rule Cons.IH) (use Cons.prems in simp_all)
  also have "?d\<lparr>EMA_cols := (EMA_cols ?d)(int p \<mapsto> ema_fold close p k is ?e)\<rparr> =
      d\<lparr>EMA_cols := (EMA_cols d)(int p \<mapsto> ema_fold close p k (i # is) ema)\<rparr>"
    by (simp add: ema_fold_def)
  finally show ?case .
qed

lemma EMA_unfold:
  assumes "numPeriods + 1 \<noteq> 0"
    and "for_loop (EMA_body closeCol numPeriods (2 / of_int (numPeriods + 1)))
           (py_range (numPeriods - 1) (int (nrows (h ! df))))
           ((h ! df)\<lparr>EMA_cols := (EMA_cols (h ! df))(numPeriods \<mapsto>
               replicate (nrows (h ! df)) NaN)\<rparr>) = (d, r)"
  shows "EMA h df closeCol numPeriods =
           (h @ [d], case r of None \<Rightarrow> Inr (length h) | Some e \<Rightarrow> Inl e)"
  using assms by (simp add: EMA_def copy_deep_def Let_def)

lemma EMA_result:
  assumes "wf_df (h ! df)" "price_cols (h ! df) c = Some close" "1 \<le> p"
  shows "EMA h df (Named c) (int p) =
    (h @ [(h ! df)\<lparr>EMA_cols := (EMA_cols (h ! df))(int p \<mapsto>
        ema_fold close p (2 / (real p + 1)) [p - 1 ..< nrows (h ! df)]
          (replicate (nrows (h ! df)) NaN))\<rparr>], Inr (length h))"
proof -
  let ?n = "nrows (h ! df)"
  let ?d0 = "(h ! df)\<lparr>EMA_cols := (EMA_cols (h ! df))(int p \<mapsto> replicate ?n NaN)\<rparr>"
  have len: "length close = ?n" using assms(1,2) by (auto simp: wf_df_def)
  have k: "2 / of_int (int p + 1) = (2 / (real p + 1) :: real)" by simp
  have r: "py_range (int p - 1) (int ?n) = map int [p - 1 ..< ?n]"
    using py_range_nat [of "p - 1" ?n] assms(3) by (simp add: of_nat_diff)
  have "for_loop (EMA_body (Named c) (int p) (2 / (real p + 1))) (map int [p - 1 ..< ?n]) ?d0 =
     (?d0\<lparr>EMA_cols := (EMA_cols ?d0)(int p \<mapsto>
        ema_fold close p (2 / (real p + 1)) [p - 1 ..< ?n] (replicate ?n NaN))\<rparr>, None)"
    by (rule EMA_loop_ok [where n = ?n]) (use assms len in simp_all)
  then have "for_loop (EMA_body (Named c) (int p) (2 / of_int (int p + 1)))
           (py_range (int p - 1) (int ?n)) ?d0 =
     ((h ! df)\<lparr>EMA_cols := (EMA_cols (h ! df))(int p \<mapsto>
        ema_fold close p (2 / (real p + 1)) [p - 1 ..< ?n] (replicate ?n NaN))\<rparr>, None)"
    by (simp only: k r) simp
  then show ?thesis
    using EMA_unfold [of "int p" "Named c" h df] by simp
qed

lemma EMA_beyond:
  assumes "int (nrows (h ! df)) < numPeriods"
  shows "EMA h df closeCol numPeriods =
    (h @ [(h ! df)\<lparr>EMA_cols := (EMA_cols (h ! df))(numPeriods \<mapsto>
        replicate (nrows (h ! df)) NaN)\<rparr>], Inr (length h))"
proof -
  have "py_range (numPeriods - 1) (int (nrows (h ! df))) = []"
    using assms by (intro py_range_empty) simp
  moreover have "numPeriods + 1 \<noteq> 0" using assms by simp
  ultimately show ?thesis
    using EMA_unfold [of numPeriods closeCol h df] by simp
qed

section \<open>Properties of EMA\<close>

text \<open>
  The first scenario of the specification: closes 10 to 50, period 3. Then the EMA of
  that EMA column with period 5 (the sum of the first window leaves the two NaN cells
  out), and with period 3 again (line 19 first fills the column read with NaN).
\<close>

lemma EMA_example:
  "EMA [example_df] 0 (Named ''Close'') 3 =
     ([example_df, example_df\<lparr>EMA_cols := [3 \<mapsto> [NaN, NaN, Fin 20, Fin 30, Fin 40]]\<rparr>], Inr 1)"
proof -
  have wf: "wf_df ([example_df] ! 0)" by (simp add: wf_df_def example_df_def)
  have pc: "price_cols ([example_df] ! 0) ''Close'' = Some [10, 20, 30, 40, 50]"
    by (simp add: example_df_def)
  have "EMA [example_df] 0 (Named ''Close'') (int 3) =
    ([example_df] @ [([example_df] ! 0)\<lparr>EMA_cols := (EMA_cols ([example_df] ! 0))(int 3 \<mapsto>
        ema_fold [10, 20, 30, 40, 50] 3 (2 / (real 3 + 1)) [3 - 1 ..< nrows ([example_df] ! 0)]
          (replicate (nrows ([example_df] ! 0)) NaN))\<rparr>], Inr (length [example_df]))"
    by (rule EMA_result [OF wf pc]) simp
  moreover have "ema_fold [10, 20, 30, 40, 50] 3 (2 / (real 3 + 1)) [3 - 1 ..< 5] (replicate 5 NaN) =
      [NaN, NaN, Fin 20, Fin 30, Fin 40]"
    by (simp add: ema_fold_def EMA_value_def eval_nat_numeral)
  ultimately show ?thesis by (simp add: example_df_def)
qed

lemma EMA_of_EMA_example:
  "EMA [example_df, example_df\<lparr>EMA_cols := [3 \<mapsto> [NaN, NaN, Fin 20, Fin 30, Fin 40]]\<rparr>] 1
       (Period_EMA 3) 5 =
     ([example_df, example_df\<lparr>EMA_cols := [3 \<mapsto> [NaN, NaN, Fin 20, Fin 30, Fin 40]]\<rparr>,
       example_df\<lparr>EMA_cols := [3 \<mapsto> [NaN, NaN, Fin 20, Fin 30, Fin 40],
                                  5 \<mapsto> [NaN, NaN, NaN, NaN, Fin 18]]\<rparr>], Inr 2)"
  by (simp add: EMA_def copy_deep_def Let_def py_range_def EMA_body_def thn_def getitem_def
      column_def set_EMA_cell_def setcell_def getcell_def py_slice_def np_sum_def
      example_df_def eval_nat_numeral fun_upd_twist)

lemma EMA_same_period_example:
  "snd (EMA [example_df, example_df\<lparr>EMA_cols := [3 \<mapsto> [NaN, NaN, Fin 20, Fin 30, Fin 40]]\<rparr>] 1
       (Period_EMA 3) 3) = Inr 2 \<and>
   EMA_cols (fst (EMA [example_df, example_df\<lparr>EMA_cols := [3 \<mapsto> [NaN, NaN, Fin 20, Fin 30, Fin 40]]\<rparr>] 1
       (Period_EMA 3) 3) ! 2) 3 = Some [NaN, NaN, Fin 0, NaN, NaN]"
  by (simp add: EMA_def copy_deep_def Let_def py_range_def EMA_body_def thn_def getitem_def
      column_def set_EMA_cell_def setcell_def getcell_def py_slice_def np_sum_def
      example_df_def eval_nat_numeral upto_rec1)

text \<open>
  Claim C10. For every frame and every period greater than the number of rows, \<open>EMA\<close>
  returns normally: the loop body never runs, and the column of the returned copy is
  NaN at every position (whether or not the close column exists).
\<close>

theorem EMA_period_beyond_length:
  assumes "int (nrows (h ! df)) < numPeriods"
  shows "EMA h df closeCol numPeriods =
    (h @ [(h ! df)\<lparr>EMA_cols := (EMA_cols (h ! df))(numPeriods \<mapsto> replicate (nrows (h ! df)) NaN)\<rparr>],
     Inr (length h))"
  using assms by (rule EMA_beyond)

theorem EMA_period_beyond_length_witness:
  "int (nrows ([example_df] ! 0)) < 6 \<and>
   snd (EMA [example_df] 0 (Named ''Close'') 6) = Inr 1 \<and>
   EMA_cols (fst (EMA [example_df] 0 (Named ''Close'') 6) ! 1) 6 = Some [NaN, NaN, NaN, NaN, NaN]"
  using EMA_period_beyond_length [of "[example_df]" 0 6 "Named ''Close''"]
  by (simp add: example_df_def numeral_eq_Suc)

text \<open>
  Claim C2. For a period \<open>p\<close> with \<open>1 \<le> p \<le> length s\<close>, the EMA column of the returned
  copy has the length of the close column \<open>s\<close>, is NaN at the positions below \<open>p - 1\<close>,
  and at \<open>p - 1\<close> holds the arithmetic mean of the first \<open>p\<close> closes.
\<close>

theorem EMA_seed:
  assumes "wf_df (h ! df)" "price_cols (h ! df) closeCol = Some s" "1 \<le> p" "p \<le> length s"
  shows "\<exists>h' dfCopy out. EMA h df (Named closeCol) (int p) = (h', Inr dfCopy) \<and>
           EMA_cols (h' ! dfCopy) (int p) = Some out \<and> length out = length s \<and>
           (\<forall>i<p - 1. out ! i = NaN) \<and>
           out ! (p - 1) = Fin (sum_list (take p s) / real p)"
proof -
  have n: "nrows (h ! df) = length s" using assms(1,2) by (auto simp: wf_df_def)
  let ?out = "ema_fold s p (2 / (real p + 1)) [p - 1 ..< length s] (replicate (length s) NaN)"
  have "EMA h df (Named closeCol) (int p) =
      (h @ [(h ! df)\<lparr>EMA_cols := (EMA_cols (h ! df))(int p \<mapsto> ?out)\<rparr>], Inr (length h))"
    using EMA_result [OF assms(1,2,3)] n by simp
  moreover have "length ?out = length s" by (simp add: ema_fold_length)
  moreover have "\<forall>i<p - 1. ?out ! i = NaN"
    using assms by (simp add: ema_run_outside)
  moreover have "?out ! (p - 1) = Fin (sum_list (take p s) / real p)"
    using assms by (intro ema_run_seed) simp_all
  ultimately show ?thesis by simp
qed

theorem EMA_seed_witness:
  "wf_df ([example_df] ! 0) \<and>
   (\<exists>h' dfCopy out. EMA [example_df] 0 (Named ''Close'') 3 = (h', Inr dfCopy) \<and>
      EMA_cols (h' ! dfCopy) 3 = Some out \<and> length out = 5 \<and>
      out ! 0 = NaN \<and> out ! 1 = NaN \<and> out ! 2 = Fin 20)"
proof -
  have wf: "wf_df ([example_df] ! 0)" by (simp add: wf_df_def example_df_def)
  have pc: "price_cols ([example_df] ! 0) ''Close'' = Some [10, 20, 30, 40, 50]"
    by (simp add: example_df_def)
  obtain h' dfCopy out where r: "EMA [example_df] 0 (Named ''Close'') (int 3) = (h', Inr dfCopy)"
      "EMA_cols (h' ! dfCopy) (int 3) = Some out" "length out = length [10, 20, 30, 40, 50::real]"
      "\<forall>i<3 - 1. out ! i = NaN"
      "out ! (3 - 1) = Fin (sum_list (take 3 [10, 20, 30, 40, 50]) / real 3)"
    using EMA_seed [OF wf pc, of 3] by auto
  have "out ! 0 = NaN" "out ! 1 = NaN" using r(4) by simp_all
  moreover have "out ! 2 = Fin 20" using r(5) by simp
  ultimately show ?thesis using wf r(1,2,3) by auto
qed

text \<open>
  Claim C3. At every position \<open>i\<close> with \<open>p - 1 < i < length s\<close> the EMA column holds
  \<open>s[i] * k + out[i - 1] * (1 - k)\<close> with \<open>k = 2 / (p + 1)\<close>, and both entries are numbers.
\<close>

theorem EMA_recurrence:
  assumes "wf_df (h ! df)" "price_cols (h ! df) closeCol = Some s" "1 \<le> p"
    "p - 1 < i" "i < length s"
  shows "\<exists>h' dfCopy out x. EMA h df (Named closeCol) (int p) = (h', Inr dfCopy) \<and>
           EMA_cols (h' ! dfCopy) (int p) = Some out \<and> out ! (i - 1) = Fin x \<and>
           out ! i = Fin (s ! i * (2 / (real p + 1)) + x * (1 - 2 / (real p + 1)))"
proof -
  have n: "nrows (h ! df) = length s" using assms(1,2) by (auto simp: wf_df_def)
  let ?k = "2 / (real p + 1)"
  let ?out = "ema_fold s p ?k [p - 1 ..< length s] (replicate (length s) NaN)"
  have 1: "EMA h df (Named closeCol) (int p) =
      (h @ [(h ! df)\<lparr>EMA_cols := (EMA_cols (h ! df))(int p \<mapsto> ?out)\<rparr>], Inr (length h))"
    using EMA_result [OF assms(1,2,3)] n by simp
  have "p - 1 \<le> i - 1" "i - 1 < length s" using assms by arith+
  then obtain x where x: "?out ! (i - 1) = Fin x"
    using ema_run_Fin [of p "length s" "replicate (length s) NaN" "i - 1" s ?k] assms(3) by auto
  have "?out ! i = fadd (fmul (Fin (s ! i)) (Fin ?k)) (fmul (?out ! (i - 1)) (Fin (1 - ?k)))"
    using assms by (intro ema_run_rec) simp_all
  then have "?out ! i = Fin (s ! i * ?k + x * (1 - ?k))" using x by simp
  then show ?thesis using 1 x by simp
qed

theorem EMA_recurrence_witness:
  "wf_df ([example_df] ! 0) \<and>
   (\<exists>h' dfCopy out x. EMA [example_df] 0 (Named ''Close'') 3 = (h', Inr dfCopy) \<and>
      EMA_cols (h' ! dfCopy) 3 = Some out \<and> out ! 2 = Fin x \<and> out ! 3 = Fin (20 + x / 2))"
proof -
  have wf: "wf_df ([example_df] ! 0)" by (simp add: wf_df_def example_df_def)
  have pc: "price_cols ([example_df] ! 0) ''Close'' = Some [10, 20, 30, 40, 50]"
    by (simp add: example_df_def)
  obtain h' dfCopy out x where r: "EMA [example_df] 0 (Named ''Close'') (int 3) = (h', Inr dfCopy)"
      "EMA_cols (h' ! dfCopy) (int 3) = Some out" "out ! (3 - 1) = Fin x"
      "out ! 3 = Fin ([10, 20, 30, 40, 50] ! 3 * (2 / (real 3 + 1)) + x * (1 - 2 / (real 3 + 1)))"
    using EMA_recurrence [OF wf pc, of 3 3] by auto
  have "out ! 2 = Fin x" using r(3) by simp
  moreover have "out ! 3 = Fin (20 + x / 2)" using r(4) by simp
  ultimately show ?thesis using wf r(1,2) by auto
qed

section \<open>Properties of EMA\_trading\_strategy\<close>

lemma alternates_snoc:
  "alternates h (ss @ [x]) =
     (alternates h ss \<and> (case x of BUY \<Rightarrow> \<not> flag_after h ss | SELL \<Rightarrow> flag_after h ss | NoSignal \<Rightarrow> True))"
  by (induction h ss rule: alternates.induct) (auto split: signal.splits)

lemma flag_after_snoc:
  "flag_after h (ss @ [x]) =
     (case x of BUY \<Rightarrow> True | SELL \<Rightarrow> False | NoSignal \<Rightarrow> flag_after h ss)"
  by (induction h ss rule: flag_after.induct) (auto split: signal.splits)

lemma strategy_body_cases:
  assumes "strategy_body e1 e2 e3 i (d, b) = Inr (d', b')"
  shows "(d' = d \<and> b' = b) \<or>
         (\<exists>col. Buy_Sell_Signal d = Some col \<and> \<not> b \<and> b' \<and>
                d' = d\<lparr>Buy_Sell_Signal := Some (col[i := BUY])\<rparr>) \<or>
         (\<exists>col. Buy_Sell_Signal d = Some col \<and> b \<and> \<not> b' \<and>
                d' = d\<lparr>Buy_Sell_Signal := Some (col[i := SELL])\<rparr>)"
  using assms
  by (auto simp: strategy_body_def thn_def getitem_def set_signal_def
      split: option.splits if_splits)

lemma strategy_unfold:
  assumes "for_loop (strategy_body e1 e2 e3) [0 ..< nrows (h ! df)]
             ((h ! df)\<lparr>Buy_Sell_Signal := Some (replicate (nrows (h ! df)) NoSignal)\<rparr>, False) = ((d, b), r)"
  shows "EMA_trading_strategy h df e1 e2 e3 =
           (h @ [d], case r of None \<Rightarrow> Inr (length h) | Some e \<Rightarrow> Inl e)"
  using assms by (simp add: EMA_trading_strategy_def copy_deep_def Let_def)

lemma sig_inv_step:
  assumes "i < n" "sig_inv n i s" "strategy_body e1 e2 e3 i s = Inr s'"
  shows "sig_inv n (Suc i) s'"
proof -
  obtain d b where s: "s = (d, b)" by (cases s)
  obtain d' b' where s': "s' = (d', b')" by (cases s')
  obtain col where col: "Buy_Sell_Signal d = Some col" "length col = n"
      "alternates False (take i col)" "flag_after False (take i col) = b"
      "\<forall>j. i \<le> j \<longrightarrow> j < n \<longrightarrow> col ! j = NoSignal"
    using assms(2) s by (auto simp: sig_inv_def)
  have tk: "\<And>c. length c = n \<Longrightarrow> take (Suc i) c = take i c @ [c ! i]"
    using assms(1) by (simp add: take_Suc_conv_app_nth)
  consider (same) "d' = d" "b' = b"
    | (buy) "\<not> b" "b'" "d' = d\<lparr>Buy_Sell_Signal := Some (col[i := BUY])\<rparr>"
    | (sell) "b" "\<not> b'" "d' = d\<lparr>Buy_Sell_Signal := Some (col[i := SELL])\<rparr>"
    using strategy_body_cases [of e1 e2 e3 i d b d' b'] assms(3) s s' col(1) by auto
  then show ?thesis
  proof cases
    case same
    have "col ! i = NoSignal" using col(5) assms(1) by simp
    then show ?thesis using same col assms(1) s'
      by (auto simp: sig_inv_def tk alternates_snoc flag_after_snoc)
  next
    case buy
    then show ?thesis using col assms(1) s'
      by (auto simp: sig_inv_def tk alternates_snoc flag_after_snoc)
  next
    case sell
    then show ?thesis using col assms(1) s'
      by (auto simp: sig_inv_def tk alternates_snoc flag_after_snoc)
  qed
qed

lemma strategy_loop_inv:
  assumes "for_loop (strategy_body e1 e2 e3) [0 ..< n]
             (d0\<lparr>Buy_Sell_Signal := Some (replicate n NoSignal)\<rparr>, False) = (s', None)"
  shows "sig_inv n n s'"
proof (rule for_loop_upt_partial [where I = "sig_inv n" and m = 0, OF _ _ _ assms])
  show "0 \<le> n" by simp
  show "sig_inv n 0 (d0\<lparr>Buy_Sell_Signal := Some (replicate n NoSignal)\<rparr>, False)"
    by (simp add: sig_inv_def)
  show "\<And>i s s'. i < n \<Longrightarrow> sig_inv n i s \<Longrightarrow> strategy_body e1 e2 e3 i s = Inr s' \<Longrightarrow> sig_inv n (Suc i) s'"
    by (rule sig_inv_step)
qed

lemma alternates_drop:
  "alternates h ss \<Longrightarrow> alternates (flag_after h (take m ss)) (drop m ss)"
proof (induction h ss arbitrary: m rule: alternates.induct)
  case (1 holding)
  then show ?case by simp
next
  case (2 holding ss)
  then show ?case by (cases m) simp_all
next
  case (3 holding ss)
  then show ?case by (cases m) simp_all
next
  case (4 holding ss)
  then show ?case by (cases m) simp_all
qed

lemma alternates_SELL_after_flag:
  "alternates True ss \<Longrightarrow> j < length ss \<Longrightarrow> ss ! j = BUY \<Longrightarrow> \<exists>k<j. ss ! k = SELL"
proof (induction ss arbitrary: j)
  case Nil
  then show ?case by simp
next
  case (Cons x ss)
  show ?case
  proof (cases x)
    case NoSignal
    then obtain j' where j: "j = Suc j'" using Cons.prems by (cases j) auto
    then obtain k where "k < j'" "ss ! k = SELL" using Cons NoSignal by auto
    then have "Suc k < j \<and> (x # ss) ! Suc k = SELL" using j by simp
    then show ?thesis by blast
  next
    case BUY
    then show ?thesis using Cons.prems by simp
  next
    case SELL
    then have "j \<noteq> 0" using Cons.prems by (cases j) auto
    then have "0 < j \<and> (x # ss) ! 0 = SELL" using SELL by simp
    then show ?thesis by blast
  qed
qed

lemma alternates_BUY_before_SELL:
  "alternates False ss \<Longrightarrow> j < length ss \<Longrightarrow> ss ! j = SELL \<Longrightarrow> \<exists>k<j. ss ! k = BUY"
proof (induction ss arbitrary: j)
  case Nil
  then show ?case by simp
next
  case (Cons x ss)
  show ?case
  proof (cases x)
    case NoSignal
    then obtain j' where j: "j = Suc j'" using Cons.prems by (cases j) auto
    then obtain k where "k < j'" "ss ! k = BUY" using Cons NoSignal by auto
    then have "Suc k < j \<and> (x # ss) ! Suc k = BUY" using j by simp
    then show ?thesis by blast
  next
    case BUY
    then have "j \<noteq> 0" using Cons.prems by (cases j) auto
    then have "0 < j \<and> (x # ss) ! 0 = BUY" using BUY by simp
    then show ?thesis by blast
  next
    case SELL
    then show ?thesis using Cons.prems by simp
  qed
qed

lemma flag_after_BUY_last:
  "i < length ss \<Longrightarrow> ss ! i = BUY \<Longrightarrow> flag_after h (take (Suc i) ss) = True"
  by (simp add: take_Suc_conv_app_nth flag_after_snoc)

lemma alternates_no_double_BUY:
  assumes "alternates h ss" "i < j" "j < length ss" "ss ! i = BUY" "ss ! j = BUY"
  shows "\<exists>k. i < k \<and> k < j \<and> ss ! k = SELL"
proof -
  have "alternates (flag_after h (take (Suc i) ss)) (drop (Suc i) ss)"
    by (rule alternates_drop [OF assms(1)])
  then have a: "alternates True (drop (Suc i) ss)"
    using flag_after_BUY_last [of i ss h] assms by simp
  have "j - Suc i < length (drop (Suc i) ss)" "drop (Suc i) ss ! (j - Suc i) = BUY"
    using assms by simp_all
  then obtain k where k: "k < j - Suc i" "drop (Suc i) ss ! k = SELL"
    using alternates_SELL_after_flag [OF a] by blast
  then have "i < Suc i + k \<and> Suc i + k < j \<and> ss ! (Suc i + k) = SELL"
    using assms by simp
  then show ?thesis by blast
qed

lemma alternates_no_double_SELL:
  assumes "alternates h ss" "i < j" "j < length ss" "ss ! i = SELL" "ss ! j = SELL"
  shows "\<exists>k. i < k \<and> k < j \<and> ss ! k = BUY"
proof -
  have "alternates (flag_after h (take (Suc i) ss)) (drop (Suc i) ss)"
    by (rule alternates_drop [OF assms(1)])
  moreover have "flag_after h (take (Suc i) ss) = False"
    using assms by (simp add: take_Suc_conv_app_nth flag_after_snoc)
  ultimately have a: "alternates False (drop (Suc i) ss)" by simp
  have "j - Suc i < length (drop (Suc i) ss)" "drop (Suc i) ss ! (j - Suc i) = SELL"
    using assms by simp_all
  then obtain k where k: "k < j - Suc i" "drop (Suc i) ss ! k = BUY"
    using alternates_BUY_before_SELL [OF a] by blast
  then have "i < Suc i + k \<and> Suc i + k < j \<and> ss ! (Suc i + k) = BUY"
    using assms by simp
  then show ?thesis by blast
qed

lemma alternates_SELL_has_open_BUY:
  assumes "alternates False ss" "j < length ss" "ss ! j = SELL"
  shows "\<exists>i<j. ss ! i = BUY \<and> (\<forall>k. i < k \<and> k < j \<longrightarrow> ss ! k \<noteq> SELL)"
proof -
  let ?S = "{i. i < j \<and> ss ! i = BUY}"
  have fin: "finite ?S" by simp
  have ne: "?S \<noteq> {}" using alternates_BUY_before_SELL [OF assms] by blast
  let ?i = "Max ?S"
  have mem: "?i \<in> ?S" using Max_in [OF fin ne] .
  have "ss ! k \<noteq> SELL" if k: "?i < k" "k < j" for k
  proof
    assume "ss ! k = SELL"
    then obtain k' where k': "k < k'" "k' < j" "ss ! k' = BUY"
      using alternates_no_double_SELL [OF assms(1) k(2) assms(2) _ assms(3)] by blast
    then have "k' \<in> ?S" by simp
    then have "k' \<le> ?i" using Max_ge [OF fin] by blast
    with k(1) k'(1) show False by linarith
  qed
  then show ?thesis using mem by blast
qed

lemma generateSignals_from_length [simp]:
  "length (generateSignals_from h rows) = length rows"
  by (induction h rows rule: generateSignals_from.induct) simp_all

lemma generateSignals_from_append:
  "generateSignals_from h (xs @ ys) =
     generateSignals_from h xs @
     generateSignals_from (flag_after h (generateSignals_from h xs)) ys"
  by (induction h xs rule: generateSignals_from.induct) simp_all

lemma ref_inv_step:
  assumes cols: "EMA_cols d0 e1 = Some c1" "EMA_cols d0 e2 = Some c2" "EMA_cols d0 e3 = Some c3"
    and len: "length c1 = n" "length c2 = n" "length c3 = n"
    and i: "i < n" and inv: "ref_inv d0 (zip c1 (zip c2 c3)) i s"
  shows "\<exists>s'. strategy_body e1 e2 e3 i s = Inr s' \<and> ref_inv d0 (zip c1 (zip c2 c3)) (Suc i) s'"
proof -
  let ?rows = "zip c1 (zip c2 c3)"
  let ?g = "generateSignals_from False (take i ?rows)"
  let ?b = "flag_after False ?g"
  have n: "length ?rows = n" using len by simp
  have row: "?rows ! i = (c1 ! i, c2 ! i, c3 ! i)" using len i by simp
  have tk: "take (Suc i) ?rows = take i ?rows @ [(c1 ! i, c2 ! i, c3 ! i)]"
    using i n row by (simp add: take_Suc_conv_app_nth)
  have lg: "length ?g = i" using i n by simp
  have rep: "replicate (n - i) NoSignal = NoSignal # replicate (n - Suc i) NoSignal"
    using i by (cases "n - i") (simp_all add: Suc_diff_Suc)
  obtain d where s: "s = (d, ?b)"
    and d: "d = d0\<lparr>Buy_Sell_Signal := Some (?g @ NoSignal # replicate (n - Suc i) NoSignal)\<rparr>"
    using inv n rep by (cases s) (simp add: ref_inv_def)
  have upd: "\<And>v. (?g @ NoSignal # replicate (n - Suc i) NoSignal)[i := v] =
      ?g @ v # replicate (n - Suc i) NoSignal"
    using lg by (simp add: list_update_append)
  show ?thesis
    unfolding s ref_inv_def n tk generateSignals_from_append
    using cols i
    by (simp add: strategy_body_def thn_def getitem_def set_signal_def d upd fgt_def
        flag_after_snoc lg)
qed

lemma strategy_result:
  assumes wf: "wf_df (h ! df)"
    and cols: "EMA_cols (h ! df) e1 = Some c1" "EMA_cols (h ! df) e2 = Some c2"
      "EMA_cols (h ! df) e3 = Some c3"
  shows "EMA_trading_strategy h df e1 e2 e3 =
     (h @ [(h ! df)\<lparr>Buy_Sell_Signal := Some (generateSignals c1 c2 c3)\<rparr>], Inr (length h))"
proof -
  let ?n = "nrows (h ! df)"
  let ?rows = "zip c1 (zip c2 c3)"
  let ?d0 = "(h ! df)\<lparr>Buy_Sell_Signal := Some (replicate ?n NoSignal)\<rparr>"
  have len: "length c1 = ?n" "length c2 = ?n" "length c3 = ?n"
    using wf cols by (auto simp: wf_df_def)
  then have n: "length ?rows = ?n" by simp
  have start: "ref_inv (h ! df) ?rows 0 (?d0, False)"
    using len by (simp add: ref_inv_def)
  have "\<exists>s'. for_loop (strategy_body e1 e2 e3) [0 ..< ?n] (?d0, False) = (s', None) \<and>
          ref_inv (h ! df) ?rows ?n s'"
  proof (rule for_loop_upt_total [where I = "ref_inv (h ! df) ?rows"])
    show "0 \<le> ?n" by simp
    show "ref_inv (h ! df) ?rows 0 (?d0, False)" by (rule start)
    show "\<exists>s'. strategy_body e1 e2 e3 i s = Inr s' \<and> ref_inv (h ! df) ?rows (Suc i) s'"
      if "i < ?n" "ref_inv (h ! df) ?rows i s" for i s
      using ref_inv_step [OF cols len that] .
  qed
  then obtain d b where l: "for_loop (strategy_body e1 e2 e3) [0 ..< ?n] (?d0, False) = ((d, b), None)"
    and inv: "ref_inv (h ! df) ?rows ?n (d, b)"
    by (metis surj_pair)
  have "d = (h ! df)\<lparr>Buy_Sell_Signal := Some (generateSignals c1 c2 c3)\<rparr>"
    using inv n by (simp add: ref_inv_def generateSignals_def)
  then show ?thesis using strategy_unfold [OF l] by simp
qed

text \<open>
  Claim C4. On a frame that holds the three EMA columns, the call returns a copy whose
  signal column is the one the generator of the specification computes: a scan in
  increasing order with a holding flag that starts false; no signal and no change of the
  flag where one of the three values is NaN; BUY where mid < short, long < mid and the
  flag is false; SELL where mid > short, long > mid and the flag is true; no signal
  otherwise.
\<close>

theorem strategy_refines_generateSignals:
  assumes "wf_df (h ! df)"
    and "EMA_cols (h ! df) emaCol1 = Some shortEMA"
    and "EMA_cols (h ! df) emaCol2 = Some midEMA"
    and "EMA_cols (h ! df) emaCol3 = Some longEMA"
  shows "EMA_trading_strategy h df emaCol1 emaCol2 emaCol3 =
     (h @ [(h ! df)\<lparr>Buy_Sell_Signal := Some (generateSignals shortEMA midEMA longEMA)\<rparr>],
      Inr (length h))"
  using assms by (rule strategy_result)

theorem strategy_refines_generateSignals_witness:
  "wf_df ([example_ema_df] ! 0) \<and>
   EMA_trading_strategy [example_ema_df] 0 1 2 3 =
     ([example_ema_df, example_ema_df\<lparr>Buy_Sell_Signal := Some [NoSignal, BUY, SELL, NoSignal]\<rparr>],
      Inr 1)"
proof -
  have wf: "wf_df ([example_ema_df] ! 0)" by (simp add: wf_df_def example_ema_df_def)
  have "EMA_trading_strategy [example_ema_df] 0 1 2 3 =
     ([example_ema_df] @ [([example_ema_df] ! 0)\<lparr>Buy_Sell_Signal :=
        Some (generateSignals [NaN, Fin 3, Fin 1, Fin 1] [Fin 2, Fin 2, Fin 2, Fin 2]
                [Fin 1, Fin 1, Fin 3, Fin 3])\<rparr>], Inr (length [example_ema_df]))"
    by (rule strategy_refines_generateSignals [OF wf]) (simp_all add: example_ema_df_def)
  then show ?thesis using wf by (simp add: generateSignals_def)
qed

text \<open>
  Claim C5. Every signal column a call returns passes the check against a holding flag
  that starts false: each BUY finds the flag false and sets it, each SELL finds it true
  and clears it. So between two BUYs there is a SELL, and before each SELL there is a
  BUY with no SELL in between.
\<close>

theorem signals_alternate:
  assumes "EMA_trading_strategy h df emaCol1 emaCol2 emaCol3 = (h', Inr dfCopy)"
  shows "\<exists>sigs. Buy_Sell_Signal (h' ! dfCopy) = Some sigs \<and> length sigs = nrows (h ! df) \<and>
           alternates False sigs \<and>
           (\<forall>i j. i < j \<and> j < length sigs \<and> sigs ! i = BUY \<and> sigs ! j = BUY \<longrightarrow>
              (\<exists>k. i < k \<and> k < j \<and> sigs ! k = SELL)) \<and>
           (\<forall>j. j < length sigs \<and> sigs ! j = SELL \<longrightarrow>
              (\<exists>i<j. sigs ! i = BUY \<and> (\<forall>k. i < k \<and> k < j \<longrightarrow> sigs ! k \<noteq> SELL)))"
proof -
  obtain d b r where l: "for_loop (strategy_body emaCol1 emaCol2 emaCol3) [0 ..< nrows (h ! df)]
             ((h ! df)\<lparr>Buy_Sell_Signal := Some (replicate (nrows (h ! df)) NoSignal)\<rparr>, False) = ((d, b), r)"
    by (metis surj_pair)
  have e: "EMA_trading_strategy h df emaCol1 emaCol2 emaCol3 =
           (h @ [d], case r of None \<Rightarrow> Inr (length h) | Some e \<Rightarrow> Inl e)"
    by (rule strategy_unfold [OF l])
  then have r: "r = None" and h': "h' = h @ [d]" and c: "dfCopy = length h"
    using assms by (auto split: option.splits)
  have "sig_inv (nrows (h ! df)) (nrows (h ! df)) (d, b)"
    using l r by (intro strategy_loop_inv) simp
  then obtain sigs where s: "Buy_Sell_Signal d = Some sigs" "length sigs = nrows (h ! df)"
      "alternates False sigs"
    by (auto simp: sig_inv_def)
  have "\<exists>k. i < k \<and> k < j \<and> sigs ! k = SELL"
    if "i < j \<and> j < length sigs \<and> sigs ! i = BUY \<and> sigs ! j = BUY" for i j
    using alternates_no_double_BUY [OF s(3), of i j] that by blast
  moreover have "\<exists>i<j. sigs ! i = BUY \<and> (\<forall>k. i < k \<and> k < j \<longrightarrow> sigs ! k \<noteq> SELL)"
    if "j < length sigs \<and> sigs ! j = SELL" for j
    using alternates_SELL_has_open_BUY [OF s(3), of j] that by blast
  ultimately show ?thesis using s h' c by auto
qed

theorem signals_alternate_witness:
  "snd (EMA_trading_strategy [example_ema_df] 0 1 2 3) = Inr 1 \<and>
   (\<exists>sigs. Buy_Sell_Signal (fst (EMA_trading_strategy [example_ema_df] 0 1 2 3) ! 1) = Some sigs \<and>
      length sigs = 4 \<and> alternates False sigs)"
proof -
  have wf: "wf_df ([example_ema_df] ! 0)" by (simp add: wf_df_def example_ema_df_def)
  have "EMA_trading_strategy [example_ema_df] 0 1 2 3 =
     ([example_ema_df] @ [([example_ema_df] ! 0)\<lparr>Buy_Sell_Signal :=
        Some (generateSignals [NaN, Fin 3, Fin 1, Fin 1] [Fin 2, Fin 2, Fin 2, Fin 2]
                [Fin 1, Fin 1, Fin 3, Fin 3])\<rparr>], Inr (length [example_ema_df]))"
    by (rule strategy_result [OF wf]) (simp_all add: example_ema_df_def)
  then obtain h' where r: "EMA_trading_strategy [example_ema_df] 0 1 2 3 = (h', Inr 1)"
    by simp
  have n: "nrows ([example_ema_df] ! 0) = 4" by (simp add: example_ema_df_def)
  obtain sigs where "Buy_Sell_Signal (h' ! 1) = Some sigs" "length sigs = 4"
      "alternates False sigs"
    using signals_alternate [OF r] n by auto
  then show ?thesis using r by simp
qed

section \<open>Failures of EMA\<close>

lemma EMA_body_first_nonpositive:
  assumes "numPeriods < 1" "EMA_cols d numPeriods = Some ema"
  shows "EMA_body closeCol numPeriods k (numPeriods - 1) d =
     (case column d closeCol of None \<Rightarrow> Inl KeyError | Some close \<Rightarrow> Inr d)"
proof -
  have "d\<lparr>EMA_cols := (EMA_cols d)(numPeriods \<mapsto> ema)\<rparr> = d"
    using assms(2) by (simp add: fun_upd_idem)
  then show ?thesis
    using assms
    by (simp add: EMA_body_def thn_def getitem_def set_EMA_cell_def setcell_def
        split: option.splits)
qed

lemma EMA_body_second_nonpositive:
  assumes "numPeriods < 1"
  shows "EMA_body closeCol numPeriods k numPeriods d = Inl KeyError"
  using assms
  by (auto simp: EMA_body_def thn_def getitem_def getcell_def split: option.splits)

lemma EMA_nonpositive:
  assumes "numPeriods < 1" "numPeriods < 0 \<or> 0 < nrows (h ! df)"
  shows "snd (EMA h df closeCol numPeriods) =
           Inl (if numPeriods = - 1 then ZeroDivisionError else KeyError)"
proof (cases "numPeriods = - 1")
  case True
  then show ?thesis by (simp add: EMA_def copy_deep_def Let_def)
next
  case False
  let ?n = "nrows (h ! df)"
  let ?k = "2 / of_int (numPeriods + 1) :: real"
  let ?d0 = "(h ! df)\<lparr>EMA_cols := (EMA_cols (h ! df))(numPeriods \<mapsto> replicate ?n NaN)\<rparr>"
  have lt: "numPeriods < int ?n" using assms by auto
  have r: "py_range (numPeriods - 1) (int ?n) =
           (numPeriods - 1) # numPeriods # py_range (numPeriods + 1) (int ?n)"
    using lt py_range_Cons [of "numPeriods - 1" "int ?n"] py_range_Cons [of numPeriods "int ?n"]
    by simp
  have e: "EMA_cols ?d0 numPeriods = Some (replicate ?n NaN)" by simp
  have "\<exists>d. for_loop (EMA_body closeCol numPeriods ?k) (py_range (numPeriods - 1) (int ?n)) ?d0 =
          (d, Some KeyError)"
    unfolding r
    by (simp add: EMA_body_first_nonpositive [OF assms(1) e]
          EMA_body_second_nonpositive [OF assms(1)] split: option.splits)
  then obtain d where "for_loop (EMA_body closeCol numPeriods ?k)
      (py_range (numPeriods - 1) (int ?n)) ?d0 = (d, Some KeyError)" by blast
  then show ?thesis
    using EMA_unfold [of numPeriods closeCol h df d "Some KeyError"] False by simp
qed

text \<open>
  Claim C8 says that a period greater than the length of the series is refused with an
  invalid-argument error. It is not: on the frame of five rows the call with period 6
  returns normally.
\<close>

theorem EMA_period_beyond_length_returns:
  "length [10, 20, 30, 40, 50 :: real] < 6 \<and>
   price_cols ([example_df] ! 0) ''Close'' = Some [10, 20, 30, 40, 50] \<and>
   \<not> (\<exists>e. snd (EMA [example_df] 0 (Named ''Close'') 6) = Inl e) \<and>
   snd (EMA [example_df] 0 (Named ''Close'') 6) = Inr 1"
proof -
  have pc: "price_cols ([example_df] ! 0) ''Close'' = Some [10, 20, 30, 40, 50]"
    by (simp add: example_df_def)
  have "int (nrows ([example_df] ! 0)) < 6" by (simp add: example_df_def)
  then show ?thesis using pc by (simp add: EMA_beyond)
qed

text \<open>
  Claim C8, amended. \<open>EMA\<close> has no check of its arguments, so no invalid-argument error.
  With a period below 1 the call fails all the same, by the operations it uses: the
  division of line 20 raises ZeroDivisionError at period \<open>- 1\<close>, and for every other
  period below 1 a negative label raises KeyError (at period 0 the frame has to have a
  row for the loop to reach it). With a period greater than the number of rows the call
  does not fail: it returns the copy, whose new column is NaN at every position.
\<close>

theorem EMA_failures:
  "(numPeriods < 1 \<and> (numPeriods < 0 \<or> 0 < nrows (h ! df)) \<longrightarrow>
      snd (EMA h df closeCol numPeriods) =
        Inl (if numPeriods = - 1 then ZeroDivisionError else KeyError)) \<and>
   (int (nrows (h ! df)) < numPeriods \<longrightarrow>
      snd (EMA h df closeCol numPeriods) = Inr (length h) \<and>
      EMA_cols (fst (EMA h df closeCol numPeriods) ! length h) numPeriods =
        Some (replicate (nrows (h ! df)) NaN))"
proof (intro conjI impI)
  assume "numPeriods < 1 \<and> (numPeriods < 0 \<or> 0 < nrows (h ! df))"
  then show "snd (EMA h df closeCol numPeriods) =
        Inl (if numPeriods = - 1 then ZeroDivisionError else KeyError)"
    using EMA_nonpositive [of numPeriods h df closeCol] by blast
next
  assume a: "int (nrows (h ! df)) < numPeriods"
  show "snd (EMA h df closeCol numPeriods) = Inr (length h)"
    by (simp add: EMA_beyond [OF a])
  show "EMA_cols (fst (EMA h df closeCol numPeriods) ! length h) numPeriods =
        Some (replicate (nrows (h ! df)) NaN)"
    by (simp add: EMA_beyond [OF a])
qed

theorem EMA_failures_witness:
  "snd (EMA [example_df] 0 (Named ''Close'') 0) = Inl KeyError \<and>
   snd (EMA [example_df] 0 (Named ''Close'') (- 1)) = Inl ZeroDivisionError \<and>
   snd (EMA [example_df] 0 (Named ''Close'') (- 3)) = Inl KeyError \<and>
   snd (EMA [example_df] 0 (Named ''Close'') 6) = Inr 1 \<and>
   EMA_cols (fst (EMA [example_df] 0 (Named ''Close'') 6) ! 1) 6 = Some [NaN, NaN, NaN, NaN, NaN]"
  using EMA_failures [of 0 "[example_df]" 0 "Named ''Close''"]
    EMA_failures [of "- 1" "[example_df]" 0 "Named ''Close''"]
    EMA_failures [of "- 3" "[example_df]" 0 "Named ''Close''"]
    EMA_failures [of 6 "[example_df]" 0 "Named ''Close''"]
  by (simp add: example_df_def numeral_eq_Suc)

section \<open>The inputs are left as they are\<close>

lemma EMA_allocates:
  "\<exists>d. fst (EMA h df closeCol numPeriods) = h @ [d] \<and>
       (snd (EMA h df closeCol numPeriods) = Inr (length h) \<or>
        (\<exists>e. snd (EMA h df closeCol numPeriods) = Inl e))"
proof (cases "numPeriods + 1 = 0")
  case True
  then show ?thesis by (simp add: EMA_def copy_deep_def Let_def)
next
  case False
  obtain d r where l: "for_loop (EMA_body closeCol numPeriods (2 / of_int (numPeriods + 1)))
           (py_range (numPeriods - 1) (int (nrows (h ! df))))
           ((h ! df)\<lparr>EMA_cols := (EMA_cols (h ! df))(numPeriods \<mapsto>
               replicate (nrows (h ! df)) NaN)\<rparr>) = (d, r)"
    by (metis surj_pair)
  show ?thesis unfolding EMA_unfold [OF False l] by (cases r) simp_all
qed

lemma strategy_allocates:
  "\<exists>d. fst (EMA_trading_strategy h df e1 e2 e3) = h @ [d] \<and>
       (snd (EMA_trading_strategy h df e1 e2 e3) = Inr (length h) \<or>
        (\<exists>e. snd (EMA_trading_strategy h df e1 e2 e3) = Inl e))"
proof -
  obtain d b r where l: "for_loop (strategy_body e1 e2 e3) [0 ..< nrows (h ! df)]
             ((h ! df)\<lparr>Buy_Sell_Signal := Some (replicate (nrows (h ! df)) NoSignal)\<rparr>, False) = ((d, b), r)"
    by (metis surj_pair)
  show ?thesis unfolding strategy_unfold [OF l] by (cases r) simp_all
qed

text \<open>
  Claim C9. A call of \<open>EMA\<close> or of \<open>EMA_trading_strategy\<close> leaves every object of the
  store as it was, the frame passed in and the result of an earlier call included,
  whether the call returns or raises. It allocates one object, and the reference it
  returns is to that new object.
\<close>

theorem inputs_not_mutated:
  "(\<forall>a<length h. fst (EMA h df closeCol numPeriods) ! a = h ! a) \<and>
   length (fst (EMA h df closeCol numPeriods)) = Suc (length h) \<and>
   (\<forall>dfCopy. snd (EMA h df closeCol numPeriods) = Inr dfCopy \<longrightarrow> dfCopy = length h) \<and>
   (\<forall>a<length h. fst (EMA_trading_strategy h df emaCol1 emaCol2 emaCol3) ! a = h ! a) \<and>
   length (fst (EMA_trading_strategy h df emaCol1 emaCol2 emaCol3)) = Suc (length h) \<and>
   (\<forall>dfCopy. snd (EMA_trading_strategy h df emaCol1 emaCol2 emaCol3) = Inr dfCopy \<longrightarrow>
      dfCopy = length h)"
proof -
  obtain d where d: "fst (EMA h df closeCol numPeriods) = h @ [d]"
      "snd (EMA h df closeCol numPeriods) = Inr (length h) \<or>
       (\<exists>e. snd (EMA h df closeCol numPeriods) = Inl e)"
    using EMA_allocates by blast
  obtain d' where d': "fst (EMA_trading_strategy h df emaCol1 emaCol2 emaCol3) = h @ [d']"
      "snd (EMA_trading_strategy h df emaCol1 emaCol2 emaCol3) = Inr (length h) \<or>
        (\<exists>e. snd (EMA_trading_strategy h df emaCol1 emaCol2 emaCol3) = Inl e)"
    using strategy_allocates by blast
  show ?thesis using d d' by (auto simp: nth_append)
qed

theorem inputs_not_mutated_witness:
  "fst (EMA [example_df] 0 (Named ''Close'') 3) ! 0 = example_df \<and>
   snd (EMA [example_df] 0 (Named ''Close'') 3) = Inr 1 \<and>
   fst (EMA_trading_strategy (fst (EMA [example_df] 0 (Named ''Close'') 3)) 1 3 3 3) ! 0 = example_df \<and>
   fst (EMA_trading_strategy (fst (EMA [example_df] 0 (Named ''Close'') 3)) 1 3 3 3) ! 1 =
     fst (EMA [example_df] 0 (Named ''Close'') 3) ! 1 \<and>
   snd (EMA_trading_strategy (fst (EMA [example_df] 0 (Named ''Close'') 3)) 1 3 3 3) = Inr 2"
proof -
  have e: "EMA [example_df] 0 (Named ''Close'') 3 =
     ([example_df, example_df\<lparr>EMA_cols := [3 \<mapsto> [NaN, NaN, Fin 20, Fin 30, Fin 40]]\<rparr>], Inr 1)"
    by (rule EMA_example)
  let ?h = "fst (EMA [example_df] 0 (Named ''Close'') 3)"
  have l: "length ?h = 2" by (simp add: e)
  let ?d = "example_df\<lparr>EMA_cols := [3 \<mapsto> [NaN, NaN, Fin 20, Fin 30, Fin 40]]\<rparr>"
  have h1: "?h ! 1 = ?d" by (simp add: e)
  have "wf_df ?d" by (simp add: wf_df_def example_df_def)
  then have wf: "wf_df (?h ! 1)" by (simp only: h1)
  have c: "EMA_cols (?h ! 1) 3 = Some [NaN, NaN, Fin 20, Fin 30, Fin 40]"
    by (simp only: h1) simp
  have s: "snd (EMA_trading_strategy ?h 1 3 3 3) = Inr 2"
    using strategy_result [OF wf c c c] l by simp
  show ?thesis
    using inputs_not_mutated [of "[example_df]" 0 "Named ''Close''" 3]
      inputs_not_mutated [of ?h 1 "Named ''Close''" 3 3 3 3] l s
    by (simp add: e)
qed

section \<open>Properties of assessTradingStrategy\<close>

lemma scan_Suc:
  "scan df closeCol initialAmount (Suc m) =
     (case scan df closeCol initialAmount m of
        (st, None) \<Rightarrow> (case assess_body df closeCol m st of
                          Inl e \<Rightarrow> (st, Some e) | Inr st' \<Rightarrow> (st', None))
      | (st, Some e) \<Rightarrow> (st, Some e))"
  by (simp add: scan_def for_loop_append split: prod.splits option.splits sum.splits)

lemma assess_body_ok:
  assumes "Buy_Sell_Signal df = Some sigs" "price_cols df closeCol = Some close"
  shows "assess_body df closeCol i st =
     Inr (let st' = (if sigs ! i = BUY \<and> \<not> bought st
                     then st\<lparr>buyPrice := Fin (close ! i * (1 + 0.0075)), bought := True\<rparr>
                     else if sigs ! i = SELL \<and> bought st then sell (close ! i) st else st)
          in if i = nrows df - 1
             then st'\<lparr>endingInvestmentAmount := round2 (val (investment st'))\<rparr> else st')"
  using assms by (simp add: assess_body_def thn_def getitem_def Let_def)

lemma scan_ok:
  assumes "Buy_Sell_Signal df = Some sigs" "price_cols df closeCol = Some close"
  shows "snd (scan df closeCol initialAmount m) = None"
proof (induction m)
  case 0
  then show ?case by (simp add: scan_def)
next
  case (Suc m)
  then show ?case
    by (cases "scan df closeCol initialAmount m")
       (simp add: scan_Suc assess_body_ok [OF assms] Let_def)
qed

lemma sell_fields:
  "val (investment (sell c st)) =
     fmul (val (investment st)) (fsub (fdiv (Fin c) (buyPrice st)) (Fin 0.0075))"
  "investment (sell c st) =
     Np (fmul (val (investment st)) (fsub (fdiv (Fin c) (buyPrice st)) (Fin 0.0075)))"
  "\<not> bought (sell c st)"
  "buyPrice (sell c st) = buyPrice st"
  "fge (val (investment (sell c st))) (val (investment st)) \<Longrightarrow>
     numSuccess (sell c st) = numSuccess st + 1 \<and> numFailure (sell c st) = numFailure st"
  "\<not> fge (val (investment (sell c st))) (val (investment st)) \<Longrightarrow>
     numSuccess (sell c st) = numSuccess st \<and> numFailure (sell c st) = numFailure st + 1"
  by (auto simp: sell_def Let_def split: if_splits)

lemma assess_body_trade_step:
  assumes "Buy_Sell_Signal df = Some sigs" "price_cols df closeCol = Some close"
  shows "\<exists>st'. assess_body df closeCol i st = Inr st' \<and>
     investment st' = investment (trade_step (sigs ! i) (close ! i) st) \<and>
     buyPrice st' = buyPrice (trade_step (sigs ! i) (close ! i) st) \<and>
     bought st' = bought (trade_step (sigs ! i) (close ! i) st) \<and>
     numSuccess st' = numSuccess (trade_step (sigs ! i) (close ! i) st) \<and>
     numFailure st' = numFailure (trade_step (sigs ! i) (close ! i) st)"
  by (simp add: assess_body_ok [OF assms] trade_step_def Let_def)

lemma completed_trades_append:
  "completed_trades ob (xs @ ys) =
     completed_trades ob xs @ completed_trades (open_after ob xs) ys"
  by (induction ob xs rule: completed_trades.induct) simp_all

lemma open_after_append:
  "open_after ob (xs @ ys) = open_after (open_after ob xs) ys"
  by (induction ob xs rule: open_after.induct) simp_all

lemma bt_inv_val:
  "bt_inv initialAmount rows st \<Longrightarrow>
   val (investment st) = foldl trade_result (Fin initialAmount) (completed_trades None rows)"
  by (simp add: bt_inv_def)

lemma bt_inv_step:
  assumes "bt_inv a rows st"
    and f: "investment st' = investment (trade_step sg c st)"
      "buyPrice st' = buyPrice (trade_step sg c st)"
      "bought st' = bought (trade_step sg c st)"
      "numSuccess st' = numSuccess (trade_step sg c st)"
      "numFailure st' = numFailure (trade_step sg c st)"
  shows "bt_inv a (rows @ [(sg, c)]) st'"
proof (cases "open_after None rows")
  case None
  then have nb: "\<not> bought st" using assms(1) by (simp add: bt_inv_def)
  show ?thesis
  proof (cases "sg = BUY")
    case True
    then show ?thesis using assms(1) None nb
      by (simp add: bt_inv_def f trade_step_def completed_trades_append open_after_append)
  next
    case False
    then have "trade_step sg c st = st" using nb by (simp add: trade_step_def)
    moreover have "completed_trades None [(sg, c)] = []" "open_after None [(sg, c)] = None"
      using False by (cases sg; simp)+
    ultimately show ?thesis using assms(1) None
      by (simp add: bt_inv_def f completed_trades_append open_after_append)
  qed
next
  case (Some b)
  then have b: "bought st" "buyPrice st = Fin (b * (1 + 0.0075))"
    using assms(1) by (simp_all add: bt_inv_def)
  show ?thesis
  proof (cases "sg = SELL")
    case True
    then have t: "trade_step sg c st = sell c st" using b by (simp add: trade_step_def)
    have ct: "completed_trades (Some b) [(sg, c)] = [(b, c)]" "open_after (Some b) [(sg, c)] = None"
      using True by simp_all
    have inv: "investment (sell c st) =
        Np (trade_result (foldl trade_result (Fin a) (completed_trades None rows)) (b, c))"
      using bt_inv_val [OF assms(1)] b by (simp add: sell_fields(2) trade_result_def)
    have cnt: "numSuccess (sell c st) + numFailure (sell c st) = Suc (numSuccess st + numFailure st)"
      using sell_fields(5,6) [of c st] by (cases "fge (val (investment (sell c st))) (val (investment st))") simp_all
    show ?thesis using assms(1) Some
      by (simp add: bt_inv_def f t completed_trades_append open_after_append ct inv cnt sell_fields(3))
  next
    case False
    then have "trade_step sg c st = st" using b by (simp add: trade_step_def)
    moreover have "completed_trades (Some b) [(sg, c)] = []" "open_after (Some b) [(sg, c)] = Some b"
      using False by (cases sg; simp)+
    ultimately show ?thesis using assms(1) Some
      by (simp add: bt_inv_def f completed_trades_append open_after_append)
  qed
qed

lemma scan_inv:
  assumes "Buy_Sell_Signal df = Some sigs" "price_cols df closeCol = Some close"
    and "length sigs = n" "length close = n"
  shows "m \<le> n \<Longrightarrow> \<exists>st. scan df closeCol a m = (st, None) \<and> bt_inv a (take m (zip sigs close)) st"
proof (induction m)
  case 0
  then show ?case by (simp add: scan_def bt_inv_def initial_locals_def)
next
  case (Suc m)
  then obtain st where st: "scan df closeCol a m = (st, None)" "bt_inv a (take m (zip sigs close)) st"
    by auto
  obtain st' where st': "assess_body df closeCol m st = Inr st'"
    and f: "investment st' = investment (trade_step (sigs ! m) (close ! m) st)"
      "buyPrice st' = buyPrice (trade_step (sigs ! m) (close ! m) st)"
      "bought st' = bought (trade_step (sigs ! m) (close ! m) st)"
      "numSuccess st' = numSuccess (trade_step (sigs ! m) (close ! m) st)"
      "numFailure st' = numFailure (trade_step (sigs ! m) (close ! m) st)"
    using assess_body_trade_step [OF assms(1,2), of m st] by blast
  have tk: "take (Suc m) (zip sigs close) = take m (zip sigs close) @ [(sigs ! m, close ! m)]"
    using Suc.prems assms(3,4) by (simp add: take_Suc_conv_app_nth)
  have "bt_inv a (take (Suc m) (zip sigs close)) st'"
    unfolding tk by (rule bt_inv_step [OF st(2) f])
  moreover have "scan df closeCol a (Suc m) = (st', None)"
    by (simp add: scan_Suc st(1) st')
  ultimately show ?case by blast
qed

lemma trade_step_BUY:
  "investment (trade_step BUY c st) = investment st"
  "numSuccess (trade_step BUY c st) = numSuccess st"
  "numFailure (trade_step BUY c st) = numFailure st"
  by (simp_all add: trade_step_def)

lemma assess_not_raised:
  assumes "scan df closeCol a (nrows df) = (st, None)" "0 < numSuccess st + numFailure st"
    and "\<exists>x. investment st = Np x"
  shows "\<exists>ptp sr. assessTradingStrategy df closeCol a =
     Inr (round2 (fsub (val (investment st)) (Fin a)), ptp, endingInvestmentAmount st,
          numSuccess st, numFailure st, sr)"
  using assms by (auto simp: assessTradingStrategy_def thn_def int_truediv_def Let_def)

lemma assess_zero_trades:
  assumes "scan df closeCol a (nrows df) = (st, None)" "numSuccess st + numFailure st = 0"
  shows "assessTradingStrategy df closeCol a = Inl ZeroDivisionError"
  using assms
  by (cases "investment st")
     (auto simp: assessTradingStrategy_def thn_def int_truediv_def Let_def)

lemma scan_Suc_ok:
  assumes "Buy_Sell_Signal df = Some sigs" "price_cols df closeCol = Some close"
  shows "scan df closeCol a (Suc m) =
     (let st' = trade_step (sigs ! m) (close ! m) (fst (scan df closeCol a m))
      in if m = nrows df - 1
         then st'\<lparr>endingInvestmentAmount := round2 (val (investment st'))\<rparr> else st', None)"
proof -
  obtain st where st: "scan df closeCol a m = (st, None)"
    using scan_ok [OF assms, of a m] by (cases "scan df closeCol a m") simp
  show ?thesis
    by (simp add: scan_Suc st assess_body_ok [OF assms] trade_step_def Let_def)
qed

lemma ex_sig:
  "Buy_Sell_Signal example_signal_df = Some [NoSignal, NoSignal, BUY, NoSignal, SELL, NoSignal]"
  by (simp add: example_signal_df_def)

lemma ex_close:
  "price_cols example_signal_df ''Close'' = Some [100, 101, 102, 103, 104, 105]"
  by (simp add: example_signal_df_def)

lemma ex_nrows: "nrows example_signal_df = 6"
  by (simp add: example_signal_df_def)

lemma ex_wf: "wf_df example_signal_df"
  by (simp add: wf_df_def example_signal_df_def)

lemma ex_scan0: "scan example_signal_df ''Close'' 1000 0 = (initial_locals 1000, None)"
  by (simp add: scan_def)

lemma ex_scan1: "scan example_signal_df ''Close'' 1000 (Suc 0) = (initial_locals 1000, None)"
  using scan_Suc_ok [OF ex_sig ex_close, of 1000 0]
  by (simp add: ex_scan0 ex_nrows trade_step_def initial_locals_def)

lemma ex_scan2: "scan example_signal_df ''Close'' 1000 2 = (initial_locals 1000, None)"
  using scan_Suc_ok [OF ex_sig ex_close, of 1000 "Suc 0"]
  by (simp add: numeral_2_eq_2 ex_scan1 ex_nrows trade_step_def initial_locals_def)

lemma ex_scan3:
  "scan example_signal_df ''Close'' 1000 3 =
     ((initial_locals 1000)\<lparr>buyPrice := Fin (102 * (1 + 0.0075)), bought := True\<rparr>, None)"
  using scan_Suc_ok [OF ex_sig ex_close, of 1000 2]
  by (simp add: ex_scan2 ex_nrows trade_step_def initial_locals_def)

lemma ex_scan4:
  "scan example_signal_df ''Close'' 1000 4 =
     ((initial_locals 1000)\<lparr>buyPrice := Fin (102 * (1 + 0.0075)), bought := True\<rparr>, None)"
  using scan_Suc_ok [OF ex_sig ex_close, of 1000 3]
  by (simp add: ex_scan3 ex_nrows trade_step_def initial_locals_def)

text \<open>
  Claim C1. On a frame with the signal and the close column, the scan reaches every
  position without raising, and the step at position \<open>i\<close> does this: on BUY while not
  holding, the buy price becomes \<open>close[i] * (1 + 0.0075)\<close> and the flag becomes true
  (investment and counters stay); on SELL while holding, the investment is multiplied by
  \<open>close[i] / buyPrice - 0.0075\<close>, the trade counts as successful if the new investment
  is at least the old one and as unsuccessful otherwise, and the flag becomes false.
\<close>

theorem backtest_position:
  assumes "wf_df df" "Buy_Sell_Signal df = Some sigs" "price_cols df closeCol = Some close"
    and "i < nrows df"
  shows "\<exists>st st'. scan df closeCol initialAmount i = (st, None) \<and>
           scan df closeCol initialAmount (Suc i) = (st', None) \<and>
           (sigs ! i = BUY \<and> \<not> bought st \<longrightarrow>
              buyPrice st' = Fin (close ! i * (1 + 0.0075)) \<and> bought st' \<and>
              investment st' = investment st \<and>
              numSuccess st' = numSuccess st \<and> numFailure st' = numFailure st) \<and>
           (sigs ! i = SELL \<and> bought st \<longrightarrow>
              val (investment st') =
                fmul (val (investment st)) (fsub (fdiv (Fin (close ! i)) (buyPrice st)) (Fin 0.0075)) \<and>
              \<not> bought st' \<and>
              (if fge (val (investment st')) (val (investment st))
               then numSuccess st' = numSuccess st + 1 \<and> numFailure st' = numFailure st
               else numSuccess st' = numSuccess st \<and> numFailure st' = numFailure st + 1))"
proof -
  obtain st where st: "scan df closeCol initialAmount i = (st, None)"
    using scan_ok [OF assms(2,3), of initialAmount i]
    by (cases "scan df closeCol initialAmount i") simp
  let ?t = "trade_step (sigs ! i) (close ! i) st"
  obtain st' where st': "assess_body df closeCol i st = Inr st'"
    and f: "investment st' = investment ?t" "buyPrice st' = buyPrice ?t" "bought st' = bought ?t"
      "numSuccess st' = numSuccess ?t" "numFailure st' = numFailure ?t"
    using assess_body_trade_step [OF assms(2,3), of i st] by blast
  have s: "scan df closeCol initialAmount (Suc i) = (st', None)"
    by (simp add: scan_Suc st st')
  have buy: "buyPrice st' = Fin (close ! i * (1 + 0.0075)) \<and> bought st' \<and>
              investment st' = investment st \<and>
              numSuccess st' = numSuccess st \<and> numFailure st' = numFailure st"
    if "sigs ! i = BUY \<and> \<not> bought st"
    using that by (simp add: f trade_step_def)
  have sell: "val (investment st') =
                fmul (val (investment st)) (fsub (fdiv (Fin (close ! i)) (buyPrice st)) (Fin 0.0075)) \<and>
              \<not> bought st' \<and>
              (if fge (val (investment st')) (val (investment st))
               then numSuccess st' = numSuccess st + 1 \<and> numFailure st' = numFailure st
               else numSuccess st' = numSuccess st \<and> numFailure st' = numFailure st + 1)"
    if "sigs ! i = SELL \<and> bought st"
  proof -
    have t: "?t = sell (close ! i) st" using that by (simp add: trade_step_def)
    show ?thesis unfolding f t using sell_fields [of "close ! i" st] by auto
  qed
  show ?thesis using st s buy sell by blast
qed

theorem backtest_position_witness:
  "wf_df example_signal_df \<and>
   (\<exists>st'. scan example_signal_df ''Close'' 1000 3 = (st', None) \<and>
      buyPrice st' = Fin (102 * (1 + 0.0075)) \<and> bought st') \<and>
   (\<exists>st'. scan example_signal_df ''Close'' 1000 5 = (st', None) \<and>
      val (investment st') =
        fmul (Fin 1000) (fsub (fdiv (Fin 104) (Fin (102 * (1 + 0.0075)))) (Fin 0.0075)) \<and>
      \<not> bought st' \<and> numSuccess st' = 1 \<and> numFailure st' = 0)"
proof -
  obtain st2 st3 where a: "scan example_signal_df ''Close'' 1000 2 = (st2, None)"
      "scan example_signal_df ''Close'' 1000 (Suc 2) = (st3, None)"
      "[NoSignal, NoSignal, BUY, NoSignal, SELL, NoSignal] ! 2 = BUY \<and> \<not> bought st2 \<longrightarrow>
         buyPrice st3 = Fin ([100, 101, 102, 103, 104, 105] ! 2 * (1 + 0.0075)) \<and> bought st3 \<and>
         investment st3 = investment st2 \<and>
         numSuccess st3 = numSuccess st2 \<and> numFailure st3 = numFailure st2"
    using backtest_position [OF ex_wf ex_sig ex_close, of 2 1000] by (auto simp: ex_nrows)
  have st2: "st2 = initial_locals 1000" using a(1) by (simp add: ex_scan2)
  have b: "buyPrice st3 = Fin (102 * (1 + 0.0075)) \<and> bought st3"
    using a(3) by (simp add: st2 initial_locals_def)
  obtain st4 st5 where c: "scan example_signal_df ''Close'' 1000 4 = (st4, None)"
      "scan example_signal_df ''Close'' 1000 (Suc 4) = (st5, None)"
      "[NoSignal, NoSignal, BUY, NoSignal, SELL, NoSignal] ! 4 = SELL \<and> bought st4 \<longrightarrow>
         val (investment st5) =
           fmul (val (investment st4))
             (fsub (fdiv (Fin ([100, 101, 102, 103, 104, 105] ! 4)) (buyPrice st4)) (Fin 0.0075)) \<and>
         \<not> bought st5 \<and>
         (if fge (val (investment st5)) (val (investment st4))
          then numSuccess st5 = numSuccess st4 + 1 \<and> numFailure st5 = numFailure st4
          else numSuccess st5 = numSuccess st4 \<and> numFailure st5 = numFailure st4 + 1)"
    using backtest_position [OF ex_wf ex_sig ex_close, of 4 1000] by (auto simp: ex_nrows)
  have st4: "st4 = (initial_locals 1000)\<lparr>buyPrice := Fin (102 * (1 + 0.0075)), bought := True\<rparr>"
    using c(1) by (simp add: ex_scan4)
  have v: "val (investment st5) =
        fmul (Fin 1000) (fsub (fdiv (Fin 104) (Fin (102 * (1 + 0.0075)))) (Fin 0.0075))"
      and nb: "\<not> bought st5"
      and i: "if fge (val (investment st5)) (Fin 1000)
          then numSuccess st5 = 1 \<and> numFailure st5 = 0
          else numSuccess st5 = 0 \<and> numFailure st5 = 1"
    using c(3) by (simp_all add: st4 initial_locals_def)
  have "fge (val (investment st5)) (Fin 1000)"
    unfolding v by (simp add: fsub_def fge_def)
  then have "numSuccess st5 = 1 \<and> numFailure st5 = 0" using i by simp
  then show ?thesis using ex_wf a(2) b c(2) v nb by simp
qed

text \<open>
  The counters at the end of the scan add up to the number of completed (BUY, SELL)
  pairs of the signal sequence, and the investment is the initial amount taken through
  the completed trades only: an open trade is in neither. When there is a completed
  pair the call returns these counters; when there is none it reaches the same
  counters, both zero, and raises ZeroDivisionError before it returns. A BUY at the
  last position leaves the investment and both counters as they were before it.
\<close>

lemma scan_counts_completed_pairs:
  assumes "wf_df df" "Buy_Sell_Signal df = Some sigs" "price_cols df closeCol = Some close"
  shows "\<exists>st. scan df closeCol initialAmount (nrows df) = (st, None) \<and>
     numSuccess st + numFailure st = length (completed_trades None (zip sigs close)) \<and>
     val (investment st) =
       foldl trade_result (Fin initialAmount) (completed_trades None (zip sigs close)) \<and>
     (completed_trades None (zip sigs close) \<noteq> [] \<longrightarrow>
        (\<exists>ptp sr. assessTradingStrategy df closeCol initialAmount =
           Inr (round2 (fsub (val (investment st)) (Fin initialAmount)), ptp,
                endingInvestmentAmount st, numSuccess st, numFailure st, sr))) \<and>
     (completed_trades None (zip sigs close) = [] \<longrightarrow>
        assessTradingStrategy df closeCol initialAmount = Inl ZeroDivisionError) \<and>
     (0 < nrows df \<and> sigs ! (nrows df - 1) = BUY \<longrightarrow>
        (\<exists>st0. scan df closeCol initialAmount (nrows df - 1) = (st0, None) \<and>
           investment st = investment st0 \<and> numSuccess st = numSuccess st0 \<and>
           numFailure st = numFailure st0))"
proof -
  let ?n = "nrows df"
  let ?rows = "zip sigs close"
  let ?ts = "completed_trades None ?rows"
  have len: "length sigs = ?n" "length close = ?n" using assms by (auto simp: wf_df_def)
  obtain st where st: "scan df closeCol initialAmount ?n = (st, None)"
      "bt_inv initialAmount (take ?n ?rows) st"
    using scan_inv [OF assms(2,3) len, of ?n initialAmount] by auto
  have inv: "bt_inv initialAmount ?rows st" using st(2) len by simp
  have cnt: "numSuccess st + numFailure st = length ?ts" using inv by (simp add: bt_inv_def)
  have v: "val (investment st) = foldl trade_result (Fin initialAmount) ?ts"
    by (rule bt_inv_val [OF inv])
  have ret: "\<exists>ptp sr. assessTradingStrategy df closeCol initialAmount =
           Inr (round2 (fsub (val (investment st)) (Fin initialAmount)), ptp,
                endingInvestmentAmount st, numSuccess st, numFailure st, sr)"
    if "?ts \<noteq> []"
  proof (rule assess_not_raised [OF st(1)])
    show "0 < numSuccess st + numFailure st" using cnt that by simp
    show "\<exists>x. investment st = Np x" using inv that by (simp add: bt_inv_def)
  qed
  have zero: "assessTradingStrategy df closeCol initialAmount = Inl ZeroDivisionError"
    if "?ts = []"
    using assess_zero_trades [OF st(1)] cnt that by simp
  have last: "\<exists>st0. scan df closeCol initialAmount (?n - 1) = (st0, None) \<and>
           investment st = investment st0 \<and> numSuccess st = numSuccess st0 \<and>
           numFailure st = numFailure st0"
    if "0 < ?n \<and> sigs ! (?n - 1) = BUY"
  proof -
    have "0 < ?n" using that by simp
    then obtain m where m: "?n = Suc m" using gr0_implies_Suc by blast
    then have m1: "?n - 1 = m" by simp
    obtain st0 where st0: "scan df closeCol initialAmount m = (st0, None)"
      using scan_ok [OF assms(2,3), of initialAmount m]
      by (cases "scan df closeCol initialAmount m") simp
    obtain st' where st': "assess_body df closeCol m st0 = Inr st'"
      and f: "investment st' = investment (trade_step (sigs ! m) (close ! m) st0)"
        "numSuccess st' = numSuccess (trade_step (sigs ! m) (close ! m) st0)"
        "numFailure st' = numFailure (trade_step (sigs ! m) (close ! m) st0)"
      using assess_body_trade_step [OF assms(2,3), of m st0] by blast
    have "scan df closeCol initialAmount (Suc m) = (st', None)"
      by (simp add: scan_Suc st0 st')
    then have "st' = st" using st(1) m by simp
    moreover have "sigs ! m = BUY" using that m1 by simp
    ultimately show ?thesis using st0 f m1 by (simp add: trade_step_BUY)
  qed
  show ?thesis using st(1) cnt v ret zero last by blast
qed

lemma scan_counts_example:
  "wf_df example_signal_df \<and>
   (\<exists>st. scan example_signal_df ''Close'' 1000 6 = (st, None) \<and>
      numSuccess st + numFailure st = 1 \<and>
      (\<exists>tp ptp eia sr. assessTradingStrategy example_signal_df ''Close'' 1000 =
         Inr (tp, ptp, eia, numSuccess st, numFailure st, sr)))"
proof -
  have t: "completed_trades None (zip [NoSignal, NoSignal, BUY, NoSignal, SELL, NoSignal]
             [100, 101, 102, 103, 104, 105]) = [(102, 104)]"
    by simp
  show ?thesis
    using scan_counts_completed_pairs [OF ex_wf ex_sig ex_close, of 1000] ex_wf
    unfolding t ex_nrows by auto
qed

text \<open>
  Claim C6 has every call return the two counters, a sequence that ends in an unmatched
  BUY included. On the frame whose only signal is a BUY at the last position the scan
  does end as the claim says, with no completed pair, both counters at zero and the
  investment untouched; but the call returns none of it: the unguarded division
  \<^verbatim>\<open>numSuccess/(numSuccess + numFailure)\<close> of line 114 raises ZeroDivisionError before
  the \<^verbatim>\<open>return\<close>.
\<close>

theorem trailing_BUY_raises:
  "completed_trades None (zip [NoSignal, NoSignal, BUY] [100, 101, 102]) = [] \<and>
   (\<exists>st. scan example_trailing_df ''Close'' 1000 3 = (st, None) \<and>
      numSuccess st = 0 \<and> numFailure st = 0 \<and> investment st = Py 1000) \<and>
   assessTradingStrategy example_trailing_df ''Close'' 1000 = Inl ZeroDivisionError"
proof -
  have sg: "Buy_Sell_Signal example_trailing_df = Some [NoSignal, NoSignal, BUY]"
    and cl: "price_cols example_trailing_df ''Close'' = Some [100, 101, 102]"
    and n: "nrows example_trailing_df = 3"
    by (simp_all add: example_trailing_df_def)
  have t: "completed_trades None (zip [NoSignal, NoSignal, BUY] [100, 101, 102]) = []"
    by simp
  obtain st where st: "scan example_trailing_df ''Close'' 1000 3 = (st, None)"
      "bt_inv 1000 (take 3 (zip [NoSignal, NoSignal, BUY] [100, 101, 102])) st"
    using scan_inv [OF sg cl, of 3 3 1000] by auto
  have z: "numSuccess st + numFailure st = 0" and i: "investment st = Py 1000"
    using st(2) by (simp_all add: bt_inv_def)
  have "scan example_trailing_df ''Close'' 1000 (nrows example_trailing_df) = (st, None)"
    using st(1) n by simp
  from assess_zero_trades [OF this z]
  have "assessTradingStrategy example_trailing_df ''Close'' 1000 = Inl ZeroDivisionError" .
  then show ?thesis using t st(1) z i by auto
qed

text \<open>
  With no completed trade the call does not return: where the scan itself did not
  raise, it is ended by the ZeroDivisionError of the division in line 114 (or of the
  one in line 113, when the initial amount is zero).
\<close>

lemma zero_trades_fail:
  assumes "scan df closeCol initialAmount (nrows df) = (st, r)"
    and "numSuccess st + numFailure st = 0"
  shows "(\<exists>e. assessTradingStrategy df closeCol initialAmount = Inl e) \<and>
         (r = None \<longrightarrow> assessTradingStrategy df closeCol initialAmount = Inl ZeroDivisionError)"
proof (cases r)
  case None
  then show ?thesis using assess_zero_trades [of df closeCol initialAmount st] assms by simp
next
  case (Some e)
  then show ?thesis using assms(1) by (simp add: assessTradingStrategy_def)
qed

text \<open>
  Claim C7 asks that a scan without a completed trade ends in an outcome that says so,
  and not in the fault of a division by zero. On the frame with one BUY that is never
  sold the scan ends with both counters at zero, and the call is ended by the
  ZeroDivisionError of the unguarded division \<^verbatim>\<open>numSuccess/(numSuccess + numFailure)\<close>.
\<close>

theorem zero_trades_raise:
  "assessTradingStrategy example_open_df ''Close'' 1000 = Inl ZeroDivisionError \<and>
   (\<exists>st. scan example_open_df ''Close'' 1000 3 = (st, None) \<and>
      numSuccess st + numFailure st = 0)"
proof -
  have sg: "Buy_Sell_Signal example_open_df = Some [NoSignal, BUY, NoSignal]"
    and cl: "price_cols example_open_df ''Close'' = Some [100, 101, 102]"
    and n: "nrows example_open_df = 3"
    by (simp_all add: example_open_df_def)
  obtain st where st: "scan example_open_df ''Close'' 1000 3 = (st, None)"
      "bt_inv 1000 (take 3 (zip [NoSignal, BUY, NoSignal] [100, 101, 102])) st"
    using scan_inv [OF sg cl, of 3 3 1000] by auto
  have z: "numSuccess st + numFailure st = 0" using st(2) by (simp add: bt_inv_def)
  have "scan example_open_df ''Close'' 1000 (nrows example_open_df) = (st, None)"
    using st(1) n by simp
  from zero_trades_fail [OF this z] st(1) z show ?thesis by simp
qed

end
